theory Spec2Isabelle
  imports Main "HOL-Library.AList"
begin

section \<open>Values, errors and the persistent state\<close>

text \<open>
  JSON values as the handlers build them. An object is an association list: JavaScript
  keeps the insertion order of keys, \<open>delete obj.k\<close> removes the entry and
  \<open>obj.k = v\<close> overwrites an existing entry in place.
\<close>

datatype jv = JNull | JNum int | JStr string | JArr "jv list" | JObj "(string \<times> jv) list"

text \<open>
  What a handler can find in a \<open>catch\<close> clause or let escape. Only an error raised by
  the persistence gateway carries an \<open>sqlMessage\<close>.
\<close>

datatype js_error = SqlError string | TypeError string | ReferenceError string | FsError string

record student =
  student_id :: int
  student_name :: string
  student_email :: string
  student_password :: string
  student_department :: string
  student_project_id :: "int option"
  student_token :: string

record professor =
  professor_id :: int
  professor_name :: string
  professor_email :: string
  professor_password :: string
  professor_department :: string
  professor_token :: string

record project =
  project_id :: int
  title :: string
  description :: string
  supervisor_name :: string
  graduation_year :: string
  graduation_term :: string
  department_name :: string
  project_files_path :: "string option"
  github_link :: string
  approval_status :: string
  total_votes :: int

record project_student =
  ps_project_id :: int
  ps_student_name :: string
  ps_student_id :: int

record comment =
  comment_id :: int
  c_project_id :: int
  commenter_id :: int
  commenter_name :: "string option"
  comment_text :: string

record bookmark =
  bookmark_id :: int
  b_student_id :: int
  b_project_id :: int
  b_title :: string
  b_department_name :: string
  b_total_votes :: int

text \<open>The rows of every table.\<close>

record tables =
  students :: "student list"
  professors :: "professor list"
  projects :: "project list"
  project_students :: "project_student list"
  comments :: "comment list"
  bookmarks :: "bookmark list"

text \<open>
  Everything a handler observes, in the order it happens: gateway calls (with the SQL
  text of the source), file-system calls, server-side logging and the response.
\<close>

datatype event =
    EvQuery string
  | EvBegin
  | EvCommit
  | EvRollback
  | EvUnlink string
  | EvLog string
  | EvRespond nat jv

text \<open>
  Modelled from the spec: the persistence gateway \<open>../db/dbConnection\<close>, the upload
  directory and the random source are not part of the route files. The gateway is
  "a single pooled connection/handle issuing parameterized SQL and returning row sets or
  affected-row counts" which "supports an explicit begin/commit/rollback transaction mode".
  \<^item> \<open>db\<close> holds the rows as the connection sees them;
  \<^item> \<open>snapshot\<close> is \<open>Some t\<close> while a transaction is open, \<open>t\<close> being the rows
    as they were committed when it began: rollback restores \<open>t\<close>, commit drops it;
  \<^item> \<open>department_values\<close> are the values the enumerated column
    \<open>projects.department_name\<close> allows, in the order of its definition;
  \<^item> \<open>project_seq\<close> is the next generated project ID;
  \<^item> \<open>files\<close> are the paths present in the upload directory;
  \<^item> \<open>faults\<close> is the environment's script for the gateway calls still to come: the next
    call fails with \<open>e\<close> when the head is \<open>Some e\<close> and runs when it is \<open>None\<close> or when
    the script is exhausted. A failed call leaves the rows untouched;
  \<^item> \<open>entropy\<close> supplies the results of \<open>crypto.randomBytes(16).toString("hex")\<close>.
\<close>

record world =
  db :: tables
  snapshot :: "tables option"
  department_values :: "string list"
  project_seq :: int
  files :: "string list"
  faults :: "js_error option list"
  entropy :: "string list"
  trace :: "event list"

text \<open>The rows that are committed: what survives if the open transaction is abandoned.\<close>

definition durable :: "world \<Rightarrow> tables" where
  "durable w = (case snapshot w of None \<Rightarrow> db w | Some t \<Rightarrow> t)"

section \<open>Computations with exceptions over the world\<close>

type_synonym 'a io = "world \<Rightarrow> (js_error + 'a) \<times> world"

definition returnE :: "'a \<Rightarrow> 'a io" where
  "returnE x w = (Inr x, w)"

definition throwE :: "js_error \<Rightarrow> 'a io" where
  "throwE e w = (Inl e, w)"

text \<open>\<open>await m\<close> followed by the rest of the block: an exception skips the rest.\<close>

definition bindE :: "'a io \<Rightarrow> ('a \<Rightarrow> 'b io) \<Rightarrow> 'b io" where
  "bindE m f w = (case m w of (Inl e, w1) \<Rightarrow> (Inl e, w1) | (Inr x, w1) \<Rightarrow> f x w1)"

text \<open>\<open>try { m } catch (err) { h err }\<close>.\<close>

definition catchE :: "'a io \<Rightarrow> (js_error \<Rightarrow> 'a io) \<Rightarrow> 'a io" where
  "catchE m h w = (case m w of (Inl e, w1) \<Rightarrow> h e w1 | (Inr x, w1) \<Rightarrow> (Inr x, w1))"

definition emit :: "event \<Rightarrow> unit io" where
  "emit ev w = (Inr (), w\<lparr>trace := trace w @ [ev]\<rparr>)"

text \<open>\<open>res.status(s).json(b)\<close>\<close>

definition respond :: "nat \<Rightarrow> jv \<Rightarrow> unit io" where
  "respond s b = emit (EvRespond s b)"

text \<open>\<open>console.error(msg, err)\<close>\<close>

definition console_error :: "string \<Rightarrow> unit io" where
  "console_error msg = emit (EvLog msg)"

text \<open>The responses a handler has sent, oldest first.\<close>

fun responses :: "event list \<Rightarrow> (nat \<times> jv) list" where
  "responses [] = []"
| "responses (EvRespond s b # evs) = (s, b) # responses evs"
| "responses (_ # evs) = responses evs"

text \<open>
  One call of the gateway: the call is recorded, then the environment's script decides
  whether it fails; otherwise \<open>run\<close> is the call's own effect.
\<close>

definition gateway :: "event \<Rightarrow> 'a io \<Rightarrow> 'a io" where
  "gateway ev run w =
     (let w1 = w\<lparr>trace := trace w @ [ev]\<rparr>
      in case faults w1 of
           [] \<Rightarrow> run w1
         | None # fs \<Rightarrow> run (w1\<lparr>faults := fs\<rparr>)
         | Some e # fs \<Rightarrow> (Inl e, w1\<lparr>faults := fs\<rparr>))"

text \<open>
  A statement's effect on the rows; a constraint of the schema may refuse it, and then the
  rows stay as they are.
\<close>

definition statement :: "(tables \<Rightarrow> js_error + 'a \<times> tables) \<Rightarrow> 'a io" where
  "statement f w =
     (case f (db w) of
        Inl e \<Rightarrow> (Inl e, w)
      | Inr (x, t) \<Rightarrow> (Inr x, w\<lparr>db := t\<rparr>))"

text \<open>\<open>conn.query(sql, values)\<close> seen as a promise.\<close>

definition query :: "string \<Rightarrow> (tables \<Rightarrow> js_error + 'a \<times> tables) \<Rightarrow> 'a io" where
  "query sql f = gateway (EvQuery sql) (statement f)"

text \<open>
  \<open>conn.query(sql, values)\<close> called without a callback and without
  \<open>util.promisify\<close>: the statement goes to the database and the call returns a Query
  object at once. That object is not a promise, so \<open>await\<close> hands it straight back:
  the handler receives neither the rows nor the error. The statement's effect is placed
  where the statement is issued.
\<close>

datatype query_object = QueryObject

definition unawaited :: "'a io \<Rightarrow> query_object io" where
  "unawaited m w = (Inr QueryObject, snd (m w))"

text \<open>\<open>obj.length\<close> of a Query object is undefined, and \<open>undefined > n\<close> is false.\<close>

definition object_length :: "query_object \<Rightarrow> nat option" where
  "object_length obj = None"

definition js_greater :: "nat option \<Rightarrow> nat \<Rightarrow> bool" where
  "js_greater v n = (case v of None \<Rightarrow> False | Some m \<Rightarrow> m > n)"

text \<open>
  \<open>conn.query(sql, values, (err, result) => ...)\<close>: the callback receives either the
  error or the result. An exception raised inside the callback is not routed back to its
  own \<open>err\<close> branch.
\<close>

definition withCallback :: "'a io \<Rightarrow> (js_error \<Rightarrow> 'b io) \<Rightarrow> ('a \<Rightarrow> 'b io) \<Rightarrow> 'b io" where
  "withCallback m onErr onOk w =
     (case m w of (Inl e, w1) \<Rightarrow> onErr e w1 | (Inr x, w1) \<Rightarrow> onOk x w1)"

text \<open>\<open>crypto.randomBytes(16).toString("hex")\<close>: 32 hexadecimal digits from the environment.\<close>

definition randomToken :: "string io" where
  "randomToken w =
     (case entropy w of
        [] \<Rightarrow> (Inr (replicate 32 (CHR ''0'')), w)
      | t # ts \<Rightarrow> (Inr t, w\<lparr>entropy := ts\<rparr>))"

text \<open>
  Modelled from the spec: the credential-hashing primitive and the e-mail format check are
  external collaborators ("one-way password hash + verify"); the handlers are
  parameterised by them.
\<close>

record ext =
  isEmail :: "string \<Rightarrow> bool"
  bcrypt_hash :: "string \<Rightarrow> string"
  bcrypt_compare :: "string \<Rightarrow> string \<Rightarrow> bool"

section \<open>Request validators\<close>

text \<open>
  Modelled from the spec: the validation rules are declared in the route files, their
  evaluation belongs to the validator library ("declarative per-field rules ... on failure
  short-circuits with a structured error list"). A field is seen as the string the library
  converts it to; an absent field is the empty string.
\<close>

record verror =
  ve_path :: string
  ve_value :: string
  ve_msg :: string

definition verror_json :: "verror \<Rightarrow> jv" where
  "verror_json e =
     JObj [(''value'', JStr (ve_value e)), (''msg'', JStr (ve_msg e)),
           (''path'', JStr (ve_path e)), (''location'', JStr ''body'')]"

definition is_digit :: "char \<Rightarrow> bool" where
  "is_digit c = (c \<in> set ''0123456789'')"

text \<open>\<open>isInt()\<close>: an optional sign followed by at least one decimal digit.\<close>

fun isInt :: "string \<Rightarrow> bool" where
  "isInt [] = False"
| "isInt (c # cs) =
     (if c = CHR ''+'' \<or> c = CHR ''-'' then cs \<noteq> [] \<and> list_all is_digit cs
      else list_all is_digit (c # cs))"

text \<open>\<open>isLength({ min, max })\<close>\<close>

definition isLength :: "nat \<Rightarrow> nat \<Rightarrow> string \<Rightarrow> bool" where
  "isLength mn mx s = (mn \<le> length s \<and> length s \<le> mx)"

text \<open>One validator of a chain with its \<open>withMessage\<close>: an error entry when it fails.\<close>

definition check :: "string \<Rightarrow> string \<Rightarrow> bool \<Rightarrow> string \<Rightarrow> verror list" where
  "check path v ok msg = (if ok then [] else [\<lparr>ve_path = path, ve_value = v, ve_msg = msg\<rparr>])"

text \<open>The number a decimal string denotes, as the gateway compares it with an integer column.\<close>

definition digit_val :: "char \<Rightarrow> int" where
  "digit_val c = int (of_char c) - 48"

fun int_of_string :: "string \<Rightarrow> int" where
  "int_of_string [] = 0"
| "int_of_string (c # cs) =
     (if c = CHR ''-'' then - foldl (\<lambda>a d. 10 * a + digit_val d) 0 (takeWhile is_digit cs)
      else if c = CHR ''+'' then foldl (\<lambda>a d. 10 * a + digit_val d) 0 (takeWhile is_digit cs)
      else foldl (\<lambda>a d. 10 * a + digit_val d) 0 (takeWhile is_digit (c # cs)))"

section \<open>Student login\<close>

record login_req =
  lr_student_id :: string
  lr_password :: string

text \<open>\<open>SELECT *\<close> returns a row as an object with one key per column.\<close>

definition student_row :: "student \<Rightarrow> (string \<times> jv) list" where
  "student_row s =
     [(''student_id'', JNum (student_id s)),
      (''student_name'', JStr (student_name s)),
      (''student_email'', JStr (student_email s)),
      (''student_password'', JStr (student_password s)),
      (''student_department'', JStr (student_department s)),
      (''student_project_id'', (case student_project_id s of None \<Rightarrow> JNull | Some p \<Rightarrow> JNum p)),
      (''student_token'', JStr (student_token s))]"

definition select_students_by_id :: "int \<Rightarrow> student list io" where
  "select_students_by_id sid =
     query ''select * from students where student_id = ?''
       (\<lambda>t. Inr (filter (\<lambda>s. student_id s = sid) (students t), t))"

definition login_validators :: "login_req \<Rightarrow> verror list" where
  "login_validators req =
     check ''student_id'' (lr_student_id req) (isInt (lr_student_id req))
       ''Please enter a valid student ID (integer)''
     @ check ''password'' (lr_password req) (isLength 8 12 (lr_password req))
       ''Password should be between (8-12) characters''"

definition login_not_found :: jv where
  "login_not_found = JObj [(''errors'', JArr [JObj [(''msg'', JStr ''Student ID or password not found!'')]])]"

definition student_login :: "ext \<Rightarrow> login_req \<Rightarrow> unit io" where
  "student_login X req =
     catchE
       (let errors = login_validators req in
        if errors \<noteq> [] then respond 400 (JObj [(''errors'', JArr (map verror_json errors))])
        else
          bindE (select_students_by_id (int_of_string (lr_student_id req))) (\<lambda>student.
          case student of
            [] \<Rightarrow> respond 404 login_not_found
          | s0 # _ \<Rightarrow>
              let checkPassword = bcrypt_compare X (lr_password req) (student_password s0) in
              if checkPassword then
                bindE randomToken (\<lambda>newToken.
                respond 200
                  (JObj (AList.update ''student_token'' (JStr newToken)
                           (AList.delete ''student_password'' (student_row s0)))))
              else respond 404 login_not_found))
       (\<lambda>err.
          bindE (console_error ''Error logging in student:'') (\<lambda>_.
          respond 500 (JObj [(''err'', JStr ''Server error'')])))"

section \<open>Student and professor registration\<close>

definition quote :: char where
  "quote = CHR 0x27"

text \<open>\<open>value.endsWith(suffix)\<close>\<close>

definition endsWith :: "string \<Rightarrow> string \<Rightarrow> bool" where
  "endsWith s suffix = (length suffix \<le> length s \<and> drop (length s - length suffix) s = suffix)"

text \<open>\<open>isString()\<close>: a field of the model is a string.\<close>

definition isString :: "string \<Rightarrow> bool" where
  "isString s = True"

definition email_validators :: "ext \<Rightarrow> string \<Rightarrow> string \<Rightarrow> string \<Rightarrow> verror list" where
  "email_validators X path v msg =
     check path v (isEmail X v) msg
     @ check path v (endsWith v ''@fci.helwan.edu.eg'')
         (''Email domain must be '' @ [quote] @ ''@fci.helwan.edu.eg'' @ [quote])"

record register_req =
  rr_email :: string
  rr_student_name :: string
  rr_password :: string
  rr_student_department :: string
  rr_student_id :: int

definition register_validators :: "ext \<Rightarrow> register_req \<Rightarrow> verror list" where
  "register_validators X req =
     email_validators X ''email'' (rr_email req) ''Please enter a valid email!''
     @ check ''student_name'' (rr_student_name req) (isString (rr_student_name req))
         ''Please enter a valid name''
     @ check ''student_name'' (rr_student_name req) (isLength 10 20 (rr_student_name req))
         ''Name should be between (10-20) characters''
     @ check ''password'' (rr_password req) (isLength 8 12 (rr_password req))
         ''Password should be between (8-12) characters''"

text \<open>
  Modelled from the spec: "Invariant: ID and email unique", enforced by the schema, whose
  violation the gateway reports with a message that begins \<open>Duplicate entry\<close>.
\<close>

definition duplicate_entry :: "string \<Rightarrow> js_error" where
  "duplicate_entry key = SqlError (''Duplicate entry for key '' @ key)"

definition select_students_by_email :: "string \<Rightarrow> student list io" where
  "select_students_by_email email =
     query ''select * from students where student_email = ?''
       (\<lambda>t. Inr (filter (\<lambda>s. student_email s = email) (students t), t))"

definition insert_student :: "student \<Rightarrow> unit io" where
  "insert_student s =
     query ''insert into students set ? ''
       (\<lambda>t. if \<exists>r \<in> set (students t). student_id r = student_id s then
              Inl (duplicate_entry ''PRIMARY'')
            else if \<exists>r \<in> set (students t). student_email r = student_email s then
              Inl (duplicate_entry ''student_email'')
            else Inr ((), t\<lparr>students := students t @ [s]\<rparr>))"

text \<open>
  \<open>POST /student-register\<close>. Its three statements are issued as
  \<open>await conn.query(sql, values)\<close>, without a callback.
\<close>

definition student_register :: "ext \<Rightarrow> register_req \<Rightarrow> unit io" where
  "student_register X req =
     catchE
       (let errors = register_validators X req in
        if errors \<noteq> [] then respond 400 (JObj [(''errors'', JArr (map verror_json errors))])
        else
          bindE (unawaited (select_students_by_id (rr_student_id req))) (\<lambda>checkStudentIdExists.
          if js_greater (object_length checkStudentIdExists) 0 then
            respond 409 (JObj [(''error'', JStr ''Student ID already exists!'')])
          else
            bindE (unawaited (select_students_by_email (rr_email req))) (\<lambda>checkEmailExists.
            if js_greater (object_length checkEmailExists) 0 then
              respond 409 (JObj [(''error'', JStr ''Email already exists!'')])
            else
              bindE randomToken (\<lambda>token.
              let studentData =
                    \<lparr>student_id = rr_student_id req,
                     student_name = rr_student_name req,
                     student_email = rr_email req,
                     student_password = bcrypt_hash X (rr_password req),
                     student_department = rr_student_department req,
                     student_project_id = None,
                     student_token = token\<rparr>
              in bindE (unawaited (insert_student studentData)) (\<lambda>_.
                 respond 201 (JObj (AList.delete ''student_password'' (student_row studentData))))))))
       (\<lambda>err.
          bindE (console_error ''Error registering student:'') (\<lambda>_.
          respond 500 (JObj [(''err'', JStr ''Server error'')])))"

record professor_req =
  pr_professor_email :: string
  pr_password :: string
  pr_professor_department :: string
  pr_professor_id :: string
  pr_professor_name :: string

definition professor_validators :: "ext \<Rightarrow> professor_req \<Rightarrow> verror list" where
  "professor_validators X req =
     email_validators X ''professor_email'' (pr_professor_email req) ''Please enter a valid email''
     @ check ''password'' (pr_password req) (isLength 8 12 (pr_password req))
         ''Password should be between 8 to 12 characters''
     @ check ''professor_department'' (pr_professor_department req)
         (isString (pr_professor_department req)) ''Please enter a valid department''
     @ check ''professor_id'' (pr_professor_id req) (isInt (pr_professor_id req))
         ''Please enter a valid professor ID (integer)''"

definition insert_professor :: "professor \<Rightarrow> unit io" where
  "insert_professor p =
     query ''INSERT INTO professor SET ?''
       (\<lambda>t. if \<exists>r \<in> set (professors t). professor_id r = professor_id p then
              Inl (duplicate_entry ''PRIMARY'')
            else if \<exists>r \<in> set (professors t). professor_email r = professor_email p then
              Inl (duplicate_entry ''professor_email'')
            else Inr ((), t\<lparr>professors := professors t @ [p]\<rparr>))"

text \<open>\<open>str.includes(sub)\<close>\<close>

fun str_includes :: "string \<Rightarrow> string \<Rightarrow> bool" where
  "str_includes [] sub = (sub = [])"
| "str_includes (c # cs) sub = (take (length sub) (c # cs) = sub \<or> str_includes cs sub)"

text \<open>\<open>err.sqlMessage\<close>, undefined on an error that is not the gateway's.\<close>

fun sqlMessage :: "js_error \<Rightarrow> string option" where
  "sqlMessage (SqlError m) = Some m"
| "sqlMessage _ = None"

text \<open>
  \<open>POST /professor-register\<close>. The insert is issued as
  \<open>await conn.query(sql, values)\<close>, without a callback.
\<close>

definition professor_register :: "ext \<Rightarrow> professor_req \<Rightarrow> unit io" where
  "professor_register X req =
     catchE
       (let errors = professor_validators X req in
        if errors \<noteq> [] then respond 400 (JObj [(''errors'', JArr (map verror_json errors))])
        else
          bindE randomToken (\<lambda>token.
          let hashed = bcrypt_hash X (pr_password req);
              professorData =
                [(''professor_id'', JStr (pr_professor_id req)),
                 (''professor_name'', JStr (pr_professor_name req)),
                 (''professor_email'', JStr (pr_professor_email req)),
                 (''professor_password'', JStr hashed),
                 (''professor_department'', JStr (pr_professor_department req)),
                 (''professor_token'', JStr token)]
          in bindE (unawaited (insert_professor
                      \<lparr>professor_id = int_of_string (pr_professor_id req),
                       professor_name = pr_professor_name req,
                       professor_email = pr_professor_email req,
                       professor_password = hashed,
                       professor_department = pr_professor_department req,
                       professor_token = token\<rparr>)) (\<lambda>_.
             respond 201 (JObj (AList.delete ''professor_password'' professorData)))))
       (\<lambda>err.
          bindE (console_error ''Error registering professor:'') (\<lambda>_.
          case sqlMessage err of
            Some m \<Rightarrow>
              if m \<noteq> [] \<and> str_includes m ''Duplicate entry'' then
                respond 409 (JObj [(''error'', JStr ''Duplicate entry for Professor ID or Email'')])
              else respond 500 (JObj [(''error'', JStr ''Server error'')])
          | None \<Rightarrow> respond 500 (JObj [(''error'', JStr ''Server error'')])))"

section \<open>Project registration\<close>

record teammate =
  tm_name :: string
  tm_studentId :: int

text \<open>
  The fields the handler destructures from the multipart body, the uploaded file's path
  (\<open>req.file.path\<close>, if a file came with the request) and whatever else the body carries.
\<close>

record project_req =
  rq_title :: string
  rq_description :: string
  rq_supervisor_name :: string
  rq_graduation_year :: string
  rq_graduation_term :: string
  rq_department_name :: string
  rq_github_link :: string
  rq_teammateData :: "teammate list option"
  rq_file :: "string option"
  rq_other :: "(string \<times> jv) list"

text \<open>
  The names bound at the top level of \<open>routes/authentication.js\<close> (its \<open>require\<close>
  lines, constants and function declarations) and the globals of the runtime that the
  file uses. Evaluating any other free identifier raises a ReferenceError.
\<close>

definition module_scope :: "string list" where
  "module_scope =
     [''router'', ''conn'', ''body'', ''validationResult'', ''util'', ''bcrypt'', ''crypto'',
      ''multer'', ''path'', ''express'', ''saltRounds'', ''storage'', ''upload'',
      ''checkExistingStudents'', ''startTransaction'', ''commitTransaction'',
      ''rollbackTransaction'', ''insertProject'', ''insertProjectStudent'', ''insertComment'',
      ''getProjectDetails'', ''checkBookmarkExists'', ''insertBookmark'', ''insertProfessor'',
      ''hashPassword'']"

definition runtime_globals :: "string list" where
  "runtime_globals = [''console'', ''require'', ''module'', ''Date'', ''Promise'', ''Error'']"

definition resolve :: "string \<Rightarrow> unit io" where
  "resolve name =
     (if name \<in> set module_scope \<or> name \<in> set runtime_globals then returnE ()
      else throwE (ReferenceError (name @ '' is not defined'')))"

text \<open>
  \<open>fs.unlink(path, (unlinkErr) => { if (unlinkErr) console.error(...) })\<close>: the
  identifier \<open>fs\<close> is evaluated first; a failed removal is only logged.
\<close>

definition fs_unlink :: "string \<Rightarrow> unit io" where
  "fs_unlink p =
     bindE (resolve ''fs'') (\<lambda>_.
     bindE (emit (EvUnlink p)) (\<lambda>_ w.
       if p \<in> set (files w) then (Inr (), w\<lparr>files := removeAll p (files w)\<rparr>)
       else console_error ''Error deleting uploaded file:'' w))"

text \<open>\<open>teammateData.map(teammate => teammate.studentId)\<close>\<close>

definition teammate_ids :: "teammate list option \<Rightarrow> int list io" where
  "teammate_ids teammateData =
     (case teammateData of
        None \<Rightarrow> throwE (TypeError (''Cannot read properties of undefined (reading ''
                                     @ [quote] @ ''map'' @ [quote] @ '')''))
      | Some ts \<Rightarrow> returnE (map tm_studentId ts))"

definition checkExistingStudents :: "int list \<Rightarrow> int list io" where
  "checkExistingStudents studentIds =
     query ''SELECT student_id FROM project_students WHERE student_id IN (?)''
       (\<lambda>t. Inr (map ps_student_id
                    (filter (\<lambda>r. ps_student_id r \<in> set studentIds) (project_students t)), t))"

text \<open>
  \<open>conn.beginTransaction\<close>, \<open>conn.commit\<close>, \<open>conn.rollback\<close>. Beginning while a
  transaction is open commits that one first; rolling back with none open does nothing.
\<close>

definition startTransaction :: "unit io" where
  "startTransaction = gateway EvBegin (\<lambda>w. (Inr (), w\<lparr>snapshot := Some (db w)\<rparr>))"

definition commitTransaction :: "unit io" where
  "commitTransaction = gateway EvCommit (\<lambda>w. (Inr (), w\<lparr>snapshot := None\<rparr>))"

definition rollbackTransaction :: "unit io" where
  "rollbackTransaction =
     gateway EvRollback
       (\<lambda>w. case snapshot w of
               None \<Rightarrow> (Inr (), w)
             | Some t \<Rightarrow> (Inr (), w\<lparr>db := t, snapshot := None\<rparr>))"

text \<open>The insert resolves to the statement's result, of which the handler reads \<open>insertId\<close>.\<close>

definition insertProject ::
  "string \<Rightarrow> string \<Rightarrow> string \<Rightarrow> string \<Rightarrow> string \<Rightarrow> string \<Rightarrow> string option \<Rightarrow> string \<Rightarrow> int io"
where
  "insertProject ttl descr supervisor gyear gterm dept project_files_path' link =
     gateway
       (EvQuery (''INSERT INTO projects (title, description, supervisor_name, graduation_year, ''
                 @ ''graduation_term, department_name, project_files_path, github_link, ''
                 @ ''approval_status, total_votes) VALUES (?, ?, ?, ?, ?, ?, ?, ?, ''
                 @ [quote] @ ''pending'' @ [quote] @ '', 0)''))
       (\<lambda>w. let insertId = project_seq w;
                 row = \<lparr>project_id = insertId, title = ttl, description = descr,
                        supervisor_name = supervisor, graduation_year = gyear,
                        graduation_term = gterm, department_name = dept,
                        project_files_path = project_files_path', github_link = link,
                        approval_status = ''pending'', total_votes = 0\<rparr>
             in (Inr insertId,
                 w\<lparr>db := (db w)\<lparr>projects := projects (db w) @ [row]\<rparr>,
                   project_seq := insertId + 1\<rparr>))"

definition insertProjectStudent :: "int \<Rightarrow> string \<Rightarrow> int \<Rightarrow> unit io" where
  "insertProjectStudent projectId studentName studentId =
     query ''INSERT INTO project_students (project_id, student_name, student_id) VALUES (?, ?, ?)''
       (\<lambda>t. Inr ((), t\<lparr>project_students := project_students t
                          @ [\<lparr>ps_project_id = projectId, ps_student_name = studentName,
                               ps_student_id = studentId\<rparr>]\<rparr>))"

text \<open>\<open>for (const teammate of teammateData) { await insertProjectStudent(...) }\<close>\<close>

primrec insert_teammates :: "int \<Rightarrow> teammate list \<Rightarrow> unit io" where
  "insert_teammates projectId [] = returnE ()"
| "insert_teammates projectId (tm # tms) =
     bindE (insertProjectStudent projectId (tm_name tm) (tm_studentId tm)) (\<lambda>_.
     insert_teammates projectId tms)"

text \<open>The body of the handler's \<open>try\<close> block.\<close>

definition register_project_try :: "project_req \<Rightarrow> string option \<Rightarrow> unit io" where
  "register_project_try req project_file_path =
     bindE (teammate_ids (rq_teammateData req)) (\<lambda>studentIds.
     bindE (checkExistingStudents studentIds) (\<lambda>existingStudents.
     if length existingStudents > 0 then
       respond 400
         (JObj [(''error'', JStr ''One or more students are already associated with a project'')])
     else
       bindE startTransaction (\<lambda>_.
       bindE (insertProject (rq_title req) (rq_description req) (rq_supervisor_name req)
                (rq_graduation_year req) (rq_graduation_term req) (rq_department_name req)
                project_file_path (rq_github_link req)) (\<lambda>projectId.
       bindE (case rq_teammateData req of
                None \<Rightarrow> returnE ()
              | Some tms \<Rightarrow> if tms = [] then returnE () else insert_teammates projectId tms) (\<lambda>_.
       bindE commitTransaction (\<lambda>_.
       respond 201
         (JObj [(''message'', JStr ''Project and student associations created successfully'')])))))))"

text \<open>The body of its \<open>catch (err)\<close> block.\<close>

definition register_project_catch :: "string option \<Rightarrow> js_error \<Rightarrow> unit io" where
  "register_project_catch project_file_path err =
     bindE (console_error ''Error in project creation or student association:'') (\<lambda>_.
     bindE rollbackTransaction (\<lambda>_.
     bindE (case project_file_path of
              None \<Rightarrow> returnE ()
            | Some p \<Rightarrow> if p = [] then returnE () else fs_unlink p) (\<lambda>_.
     respond 500
       (JObj [(''error'', JStr ''Server error during project creation. Transaction has been rolled back.'')]))))"

text \<open>\<open>POST /register-project\<close>, after the upload middleware has stored the file.\<close>

definition register_project :: "project_req \<Rightarrow> unit io" where
  "register_project req =
     (let project_file_path = rq_file req in
      catchE (register_project_try req project_file_path)
             (register_project_catch project_file_path))"

text \<open>
  The route files share the one connection of \<open>../db/dbConnection\<close>, and a handler
  is suspended at each \<open>await\<close>. \<open>settle other\<close> lets another request's handling
  run to its end, whatever its outcome; below it is placed where this handler waits for the
  answer to its project insert, so that the other request's statements reach the
  connection between the project insert and the first teammate insert. The connection
  takes the statements in the order they are issued, so this is the order of events when
  the other request issues one statement, as a request without teammate data does (its
  \<open>teammateData.map\<close> throws at once and its catch block issues the rollback).
\<close>

definition settle :: "unit io \<Rightarrow> unit io" where
  "settle other w = (Inr (), snd (other w))"

definition register_project_overlapped :: "project_req \<Rightarrow> unit io \<Rightarrow> unit io" where
  "register_project_overlapped req other =
     (let project_file_path = rq_file req in
      catchE
        (bindE (teammate_ids (rq_teammateData req)) (\<lambda>studentIds.
         bindE (checkExistingStudents studentIds) (\<lambda>existingStudents.
         if length existingStudents > 0 then
           respond 400
             (JObj [(''error'', JStr ''One or more students are already associated with a project'')])
         else
           bindE startTransaction (\<lambda>_.
           bindE (insertProject (rq_title req) (rq_description req) (rq_supervisor_name req)
                    (rq_graduation_year req) (rq_graduation_term req) (rq_department_name req)
                    project_file_path (rq_github_link req)) (\<lambda>projectId.
           bindE (settle other) (\<lambda>_.
           bindE (case rq_teammateData req of
                    None \<Rightarrow> returnE ()
                  | Some tms \<Rightarrow> if tms = [] then returnE () else insert_teammates projectId tms) (\<lambda>_.
           bindE commitTransaction (\<lambda>_.
           respond 201
             (JObj [(''message'', JStr ''Project and student associations created successfully'')])))))))))
        (register_project_catch project_file_path))"

section \<open>Delete by ID\<close>

text \<open>A \<open>DELETE ... WHERE key = ?\<close> resolves to the number of rows it removed.\<close>

definition delete_where :: "('r \<Rightarrow> bool) \<Rightarrow> 'r list \<Rightarrow> nat \<times> 'r list" where
  "delete_where hit rows = (length (filter hit rows), filter (\<lambda>r. \<not> hit r) rows)"

text \<open>\<open>DELETE /projects/:id\<close>\<close>

definition delete_project :: "int \<Rightarrow> unit io" where
  "delete_project projectId =
     withCallback
       (query ''DELETE FROM Projects WHERE project_id = ?''
          (\<lambda>t. case delete_where (\<lambda>r. project_id r = projectId) (projects t) of
                  (affectedRows, rest) \<Rightarrow> Inr (affectedRows, t\<lparr>projects := rest\<rparr>)))
       (\<lambda>err. respond 500 (JObj [(''error'', JStr ''Error deleting project'')]))
       (\<lambda>result. respond 200 (JObj [(''message'', JStr ''Project deleted successfully'')]))"

text \<open>
  \<open>DELETE /delete-comment/:comment_id\<close>. The handler's \<open>try\<close> encloses only the call
  that hands the callback to the gateway.
\<close>

definition delete_comment :: "int \<Rightarrow> unit io" where
  "delete_comment commentId =
     withCallback
       (query ''DELETE FROM comments WHERE comment_id = ?''
          (\<lambda>t. case delete_where (\<lambda>r. comment_id r = commentId) (comments t) of
                  (affectedRows, rest) \<Rightarrow> Inr (affectedRows, t\<lparr>comments := rest\<rparr>)))
       (\<lambda>err.
          bindE (console_error ''Error deleting comment:'') (\<lambda>_.
          respond 500 (JObj [(''error'', JStr ''Server error'')])))
       (\<lambda>affectedRows.
          if affectedRows > 0 then
            respond 200 (JObj [(''message'', JStr ''Comment deleted successfully'')])
          else respond 404 (JObj [(''error'', JStr ''Comment not found'')]))"

text \<open>\<open>DELETE /comments/:comment_id\<close>, the same in both route files.\<close>

definition admin_delete_comment :: "int \<Rightarrow> unit io" where
  "admin_delete_comment commentId =
     withCallback
       (query ''DELETE FROM Comments WHERE comment_id = ?''
          (\<lambda>t. case delete_where (\<lambda>r. comment_id r = commentId) (comments t) of
                  (affectedRows, rest) \<Rightarrow> Inr (affectedRows, t\<lparr>comments := rest\<rparr>)))
       (\<lambda>err. respond 500 (JObj [(''error'', JStr ''Error deleting comment'')]))
       (\<lambda>affectedRows.
          if affectedRows > 0 then
            respond 200 (JObj [(''message'', JStr ''Comment deleted successfully'')])
          else respond 404 (JObj [(''error'', JStr ''Comment not found'')]))"

text \<open>\<open>DELETE /delete-bookmarks/:bookmark_id\<close>\<close>

definition delete_bookmark :: "int \<Rightarrow> unit io" where
  "delete_bookmark bookmarkId =
     withCallback
       (query ''DELETE FROM bookmarks WHERE bookmark_id = ?''
          (\<lambda>t. case delete_where (\<lambda>r. bookmark_id r = bookmarkId) (bookmarks t) of
                  (affectedRows, rest) \<Rightarrow> Inr (affectedRows, t\<lparr>bookmarks := rest\<rparr>)))
       (\<lambda>err.
          bindE (console_error ''Error deleting bookmark:'') (\<lambda>_.
          respond 500 (JObj [(''error'', JStr ''Server error'')])))
       (\<lambda>affectedRows.
          if affectedRows > 0 then
            respond 200 (JObj [(''message'', JStr ''Bookmark deleted successfully'')])
          else respond 404 (JObj [(''error'', JStr ''Bookmark not found'')]))"

text \<open>\<open>DELETE /delete-student/:student_id\<close>, the same in both route files.\<close>

definition delete_student :: "int \<Rightarrow> unit io" where
  "delete_student studentId =
     withCallback
       (query ''DELETE FROM Students WHERE student_id = ?''
          (\<lambda>t. case delete_where (\<lambda>r. student_id r = studentId) (students t) of
                  (affectedRows, rest) \<Rightarrow> Inr (affectedRows, t\<lparr>students := rest\<rparr>)))
       (\<lambda>err. respond 500 (JObj [(''error'', JStr ''Error deleting student account'')]))
       (\<lambda>affectedRows.
          if affectedRows > 0 then
            respond 200 (JObj [(''message'', JStr ''Student account deleted successfully'')])
          else respond 404 (JObj [(''error'', JStr ''Student account not found'')]))"

section \<open>Department names: the allowed values of an enumerated column\<close>

text \<open>
  \<open>Type.match(/'([^']+)'/g)\<close>: every leftmost stretch made of a quote, one or more
  characters that are not quotes, and a quote. The scan is outside a candidate
  (\<open>None\<close>) or has read an opening quote and the characters \<open>b\<close> after it
  (\<open>Some b\<close>). A quote that directly follows a quote cannot close a match and opens the
  next candidate. JavaScript returns \<open>null\<close> instead of an empty array.
\<close>

fun scan_quoted :: "string option \<Rightarrow> string \<Rightarrow> string list" where
  "scan_quoted st [] = []"
| "scan_quoted None (c # cs) =
     (if c = quote then scan_quoted (Some []) cs else scan_quoted None cs)"
| "scan_quoted (Some b) (c # cs) =
     (if c = quote then
        (if b = [] then scan_quoted (Some []) cs
         else ([quote] @ b @ [quote]) # scan_quoted None cs)
      else scan_quoted (Some (b @ [c])) cs)"

definition match_quoted :: "string \<Rightarrow> string list option" where
  "match_quoted ty = (let ms = scan_quoted None ty in if ms = [] then None else Some ms)"

text \<open>
  \<open>result[0].Type.match(...).map(option => option.replace(/'/g, '')).filter(option => option !== '')\<close>
\<close>

definition currentOptions :: "string \<Rightarrow> string list io" where
  "currentOptions ty =
     (case match_quoted ty of
        None \<Rightarrow> throwE (TypeError (''Cannot read properties of null (reading ''
                                     @ [quote] @ ''map'' @ [quote] @ '')''))
      | Some ms \<Rightarrow>
          returnE (filter (\<lambda>option. option \<noteq> [])
                     (map (\<lambda>option. filter (\<lambda>c. c \<noteq> quote) option) ms)))"

text \<open>\<open>options.map(option => `'${option}'`).join(',')\<close>\<close>

fun join :: "string \<Rightarrow> string list \<Rightarrow> string" where
  "join sep [] = []"
| "join sep [x] = x"
| "join sep (x # y # ys) = x @ sep @ join sep (y # ys)"

definition enum_definition :: "string list \<Rightarrow> string" where
  "enum_definition options = join '','' (map (\<lambda>option. [quote] @ option @ [quote]) options)"

text \<open>
  Modelled from the spec: the column's "allowed-value list" is part of the schema, which
  the route files reach only through \<open>SHOW COLUMNS\<close> ("introspecting its type
  definition") and \<open>ALTER TABLE ... MODIFY ... ENUM(...)\<close> ("rewrites the column
  definition"). The database prints each value as a string literal, a quote inside it
  written twice, and reads the literals of a definition by the same rule; a definition
  that is not a comma-separated list of at least one literal is refused.
\<close>

definition sql_literal :: "string \<Rightarrow> string" where
  "sql_literal v =
     [quote] @ concat (map (\<lambda>c. if c = quote then [quote, quote] else [c]) v) @ [quote]"

definition column_type :: "string list \<Rightarrow> string" where
  "column_type vs = ''enum('' @ join '','' (map sql_literal vs) @ '')''"

text \<open>
  Reading a definition: before a literal's opening quote, inside a literal, or just after
  a quote met inside one (which closes the literal unless a second quote follows).
\<close>

datatype reading = Opening | Inside string | Closing string

fun read_literals :: "reading \<Rightarrow> string list \<Rightarrow> string \<Rightarrow> string list option" where
  "read_literals Opening vs [] = None"
| "read_literals Opening vs (c # cs) =
     (if c = quote then read_literals (Inside []) vs cs else None)"
| "read_literals (Inside b) vs [] = None"
| "read_literals (Inside b) vs (c # cs) =
     (if c = quote then read_literals (Closing b) vs cs
      else read_literals (Inside (b @ [c])) vs cs)"
| "read_literals (Closing b) vs [] = Some (vs @ [b])"
| "read_literals (Closing b) vs (c # cs) =
     (if c = quote then read_literals (Inside (b @ [quote])) vs cs
      else if c = CHR '','' then read_literals Opening (vs @ [b]) cs
      else None)"

text \<open>\<open>conn.query('SHOW COLUMNS FROM projects LIKE "department_name"', ...)\<close>: \<open>result[0].Type\<close>\<close>

definition show_columns_department_name :: "string io" where
  "show_columns_department_name =
     gateway (EvQuery (''SHOW COLUMNS FROM projects LIKE '' @ [CHR 0x22] @ ''department_name'' @ [CHR 0x22]))
       (\<lambda>w. (Inr (column_type (department_values w)), w))"

text \<open>\<open>conn.query(`ALTER TABLE projects MODIFY department_name ENUM(${newEnumDefinition})`, ...)\<close>\<close>

definition alter_department_name :: "string \<Rightarrow> unit io" where
  "alter_department_name newEnumDefinition =
     gateway (EvQuery (''ALTER TABLE projects MODIFY department_name ENUM('' @ newEnumDefinition @ '')''))
       (\<lambda>w. case read_literals Opening [] newEnumDefinition of
               None \<Rightarrow> (Inl (SqlError ''You have an error in your SQL syntax''), w)
             | Some vs \<Rightarrow> (Inr (), w\<lparr>department_values := vs\<rparr>))"

text \<open>A body field that may be absent; a template literal prints an absent one as \<open>undefined\<close>.\<close>

definition template :: "string option \<Rightarrow> string" where
  "template v = (case v of None \<Rightarrow> ''undefined'' | Some s \<Rightarrow> s)"

text \<open>\<open>POST /departments\<close>\<close>

definition post_departments :: "string option \<Rightarrow> unit io" where
  "post_departments newDepartmentName =
     withCallback show_columns_department_name
       (\<lambda>err. respond 500 (JObj [(''error'', JStr ''Error retrieving department names'')]))
       (\<lambda>ty.
          bindE (currentOptions ty) (\<lambda>opts.
          if (case newDepartmentName of None \<Rightarrow> False | Some n \<Rightarrow> n \<in> set opts) then
            respond 400 (JObj [(''error'', JStr ''Department name already exists'')])
          else
            let updatedOptions = opts @ [template newDepartmentName];
                newEnumDefinition = enum_definition updatedOptions
            in withCallback (alter_department_name newEnumDefinition)
                 (\<lambda>err. respond 500 (JObj [(''error'', JStr ''Error adding new department'')]))
                 (\<lambda>_. respond 200 (JObj [(''message'', JStr ''New department added successfully'')]))))"

text \<open>\<open>DELETE /departments\<close>\<close>

definition delete_departments :: "string option \<Rightarrow> unit io" where
  "delete_departments departmentName =
     (case (case departmentName of None \<Rightarrow> None | Some n \<Rightarrow> if n = [] then None else Some n) of
        None \<Rightarrow>
          respond 400 (JObj [(''error'', JStr ''Department name is required in the request body'')])
      | Some name \<Rightarrow>
          withCallback show_columns_department_name
            (\<lambda>err. respond 500 (JObj [(''error'', JStr ''Error retrieving department names'')]))
            (\<lambda>ty.
               bindE (currentOptions ty) (\<lambda>opts.
               if name \<notin> set opts then
                 respond 404 (JObj [(''error'', JStr ''Department name not found in ENUM'')])
               else
                 let updatedOptions = filter (\<lambda>option. option \<noteq> name) opts;
                     newEnumDefinition = enum_definition updatedOptions
                 in withCallback (alter_department_name newEnumDefinition)
                      (\<lambda>err. respond 500 (JObj [(''error'', JStr ''Error deleting department'')]))
                      (\<lambda>_. respond 200 (JObj [(''message'', JStr ''Department deleted successfully'')])))))"

text \<open>What the handlers (and \<open>GET /show-departments\<close>) read off a type text.\<close>

definition listed_values :: "string \<Rightarrow> string list" where
  "listed_values ty =
     filter (\<lambda>option. option \<noteq> [])
       (map (\<lambda>option. filter (\<lambda>c. c \<noteq> quote) option) (scan_quoted None ty))"


section \<open>Observing one request\<close>

text \<open>The responses a handler sent while it took the world \<open>w\<close> to its result.\<close>

definition sent :: "world \<Rightarrow> (js_error + unit) \<times> world \<Rightarrow> (nat \<times> jv) list" where
  "sent w r = drop (length (responses (trace w))) (responses (trace (snd r)))"

text \<open>The gateway and file-system calls it made, in order.\<close>

fun is_call :: "event \<Rightarrow> bool" where
  "is_call (EvLog _) = False"
| "is_call (EvRespond _ _) = False"
| "is_call _ = True"

definition calls :: "world \<Rightarrow> (js_error + unit) \<times> world \<Rightarrow> event list" where
  "calls w r = drop (length (filter is_call (trace w))) (filter is_call (trace (snd r)))"

text \<open>The environment lets the next \<open>n\<close> gateway calls through.\<close>

definition no_faults :: "nat \<Rightarrow> world \<Rightarrow> bool" where
  "no_faults n w = list_all (\<lambda>f. f = None) (take n (faults w))"


text \<open>The token the next call of \<open>randomToken\<close> returns.\<close>

definition next_token :: "world \<Rightarrow> string" where
  "next_token w = (case entropy w of [] \<Rightarrow> replicate 32 (CHR ''0'') | t # _ \<Rightarrow> t)"

text \<open>The keys of a JSON object.\<close>

fun keys :: "jv \<Rightarrow> string list" where
  "keys (JObj kvs) = map fst kvs"
| "keys _ = []"

section \<open>Sample data\<close>

definition sample_ext :: ext where
  "sample_ext =
     \<lparr>isEmail = (\<lambda>s. CHR ''@'' \<in> set s),
      bcrypt_hash = (\<lambda>p. ''$2b$10$'' @ replicate 53 (CHR ''h'')),
      bcrypt_compare = (\<lambda>p h. p = ''secret123'' \<and> h = ''$2b$10$'' @ replicate 53 (CHR ''h''))\<rparr>"

definition sample_student :: student where
  "sample_student =
     \<lparr>student_id = 2020, student_name = ''Mona Hassan'',
      student_email = ''mona@fci.helwan.edu.eg'',
      student_password = ''$2b$10$'' @ replicate 53 (CHR ''h''),
      student_department = ''CS'', student_project_id = None,
      student_token = ''00ff''\<rparr>"

definition sample_professor :: professor where
  "sample_professor =
     \<lparr>professor_id = 501, professor_name = ''Dr. Salma'',
      professor_email = ''salma@fci.helwan.edu.eg'',
      professor_password = ''$2b$10$'' @ replicate 53 (CHR ''h''),
      professor_department = ''CS'', professor_token = ''11ee''\<rparr>"

definition sample_tables :: tables where
  "sample_tables =
     \<lparr>students = [sample_student], professors = [sample_professor], projects = [],
      project_students = [\<lparr>ps_project_id = 7, ps_student_name = ''Omar'', ps_student_id = 3030\<rparr>],
      comments = [\<lparr>comment_id = 1, c_project_id = 7, commenter_id = 2020,
                   commenter_name = Some ''Mona Hassan'', comment_text = ''nice''\<rparr>],
      bookmarks = []\<rparr>"

definition sample_world :: world where
  "sample_world =
     \<lparr>db = sample_tables, snapshot = None,
      department_values = [''CS'', ''IS''],
      project_seq = 8, files = [''project_files/1700000000000.rar''], faults = [],
      entropy = [''0123456789abcdef0123456789abcdef''], trace = []\<rparr>"

definition sample_register_req :: register_req where
  "sample_register_req =
     \<lparr>rr_email = ''ali@fci.helwan.edu.eg'', rr_student_name = ''Ali Mahmoud'',
      rr_password = ''secret123'', rr_student_department = ''CS'', rr_student_id = 2021\<rparr>"

definition sample_professor_req :: professor_req where
  "sample_professor_req =
     \<lparr>pr_professor_email = ''salma@fci.helwan.edu.eg'', pr_password = ''secret123'',
      pr_professor_department = ''CS'', pr_professor_id = ''501'',
      pr_professor_name = ''Dr. Salma''\<rparr>"

definition sample_project_req :: project_req where
  "sample_project_req =
     \<lparr>rq_title = ''Portal'', rq_description = ''Graduation portal'',
      rq_supervisor_name = ''Dr. Salma'', rq_graduation_year = ''2024'',
      rq_graduation_term = ''Fall'', rq_department_name = ''CS'',
      rq_github_link = ''https://example.org/portal'',
      rq_teammateData = Some [\<lparr>tm_name = ''Mona Hassan'', tm_studentId = 2020\<rparr>,
                              \<lparr>tm_name = ''Ali'', tm_studentId = 2021\<rparr>],
      rq_file = Some ''project_files/1700000000000.rar'',
      rq_other = [(''approval_status'', JStr ''approved''), (''total_votes'', JNum 99)]\<rparr>"

definition sample_project_req_b :: project_req where
  "sample_project_req_b =
     \<lparr>rq_title = ''Timetable'', rq_description = ''Timetable planner'',
      rq_supervisor_name = ''Dr. Salma'', rq_graduation_year = ''2024'',
      rq_graduation_term = ''Fall'', rq_department_name = ''IS'',
      rq_github_link = ''https://example.org/timetable'',
      rq_teammateData = Some [\<lparr>tm_name = ''Nour'', tm_studentId = 4040\<rparr>],
      rq_file = None, rq_other = []\<rparr>"

section \<open>Basic facts about the gateway and the trace\<close>

lemma responses_append: "responses (xs @ ys) = responses xs @ responses ys"
  by (induction xs rule: responses.induct) simp_all

lemma gateway_alt:
  "gateway ev run w =
     (case faults w of
        Some e # fs \<Rightarrow> (Inl e, w\<lparr>trace := trace w @ [ev], faults := fs\<rparr>)
      | _ \<Rightarrow> run (w\<lparr>trace := trace w @ [ev], faults := tl (faults w)\<rparr>))"
  by (cases w) (simp add: gateway_def Let_def split: list.splits option.splits)

lemma gateway_ok:
  "no_faults (Suc n) w \<Longrightarrow>
   gateway ev run w = run (w\<lparr>trace := trace w @ [ev], faults := tl (faults w)\<rparr>)"
  by (auto simp: gateway_alt no_faults_def split: list.splits option.splits)

lemma query_ok:
  "no_faults (Suc n) w \<Longrightarrow>
   query sql f w = statement f (w\<lparr>trace := trace w @ [EvQuery sql], faults := tl (faults w)\<rparr>)"
  by (simp add: query_def gateway_ok)

lemma no_faults_step:
  "no_faults (Suc n) w \<Longrightarrow> faults w' = tl (faults w) \<Longrightarrow> no_faults n w'"
  by (cases "faults w") (auto simp: no_faults_def)


section \<open>The steps of project registration\<close>

text \<open>What one gateway primitive does, whatever the environment decides.\<close>

lemma startTransaction_alt:
  "startTransaction w =
     (case faults w of
        Some e # fs \<Rightarrow> (Inl e, w\<lparr>trace := trace w @ [EvBegin], faults := fs\<rparr>)
      | _ \<Rightarrow> (Inr (), w\<lparr>trace := trace w @ [EvBegin], faults := tl (faults w),
                        snapshot := Some (db w)\<rparr>))"
  by (simp add: startTransaction_def gateway_alt split: list.splits option.splits)

lemma commitTransaction_alt:
  "commitTransaction w =
     (case faults w of
        Some e # fs \<Rightarrow> (Inl e, w\<lparr>trace := trace w @ [EvCommit], faults := fs\<rparr>)
      | _ \<Rightarrow> (Inr (), w\<lparr>trace := trace w @ [EvCommit], faults := tl (faults w),
                        snapshot := None\<rparr>))"
  by (simp add: commitTransaction_def gateway_alt split: list.splits option.splits)

lemma rollbackTransaction_alt:
  "rollbackTransaction w =
     (case faults w of
        Some e # fs \<Rightarrow> (Inl e, w\<lparr>trace := trace w @ [EvRollback], faults := fs\<rparr>)
      | _ \<Rightarrow> (Inr (), w\<lparr>trace := trace w @ [EvRollback], faults := tl (faults w),
                        db := durable w, snapshot := None\<rparr>))"
  by (cases w) (simp add: rollbackTransaction_def gateway_alt durable_def
      split: list.splits option.splits)

lemma insertProjectStudent_alt:
  "insertProjectStudent pid nm sid w =
     (case faults w of
        Some e # fs \<Rightarrow>
          (Inl e, w\<lparr>trace := trace w @ [EvQuery ''INSERT INTO project_students (project_id, student_name, student_id) VALUES (?, ?, ?)''],
                     faults := fs\<rparr>)
      | _ \<Rightarrow>
          (Inr (), w\<lparr>trace := trace w @ [EvQuery ''INSERT INTO project_students (project_id, student_name, student_id) VALUES (?, ?, ?)''],
                      faults := tl (faults w),
                      db := (db w)\<lparr>project_students := project_students (db w) @
                              [\<lparr>ps_project_id = pid, ps_student_name = nm, ps_student_id = sid\<rparr>]\<rparr>\<rparr>))"
  by (simp add: insertProjectStudent_def query_def gateway_alt statement_def
      split: list.splits option.splits)

lemma insert_teammates_effect:
  "insert_teammates pid tms w = (r, w') \<Longrightarrow>
     snapshot w' = snapshot w \<and> files w' = files w \<and> project_seq w' = project_seq w \<and>
     responses (trace w') = responses (trace w) \<and>
     (\<exists>k \<le> length tms.
        filter is_call (trace w') = filter is_call (trace w) @
          replicate k (EvQuery ''INSERT INTO project_students (project_id, student_name, student_id) VALUES (?, ?, ?)'')
        \<and> faults w' = drop k (faults w)
        \<and> (r = Inr () \<longrightarrow> k = length tms)) \<and>
     (r = Inr () \<longrightarrow>
        db w' = (db w)\<lparr>project_students := project_students (db w) @
                   map (\<lambda>t. \<lparr>ps_project_id = pid, ps_student_name = tm_name t,
                              ps_student_id = tm_studentId t\<rparr>) tms\<rparr>)"
proof (induction tms arbitrary: w)
  case Nil
  then show ?case by (simp add: returnE_def)
next
  case (Cons tm tms)
  show ?case
  proof (cases "insertProjectStudent pid (tm_name tm) (tm_studentId tm) w")
    case (Pair r1 w1)
    show ?thesis
    proof (cases r1)
      case (Inl e)
      with Pair Cons.prems have "r = Inl e" "w' = w1"
        by (simp_all add: bindE_def)
      with Pair Inl show ?thesis
        by (auto simp: insertProjectStudent_alt responses_append intro!: exI [of _ 1]
            split: list.splits option.splits)
    next
      case (Inr u)
      with Pair Cons.prems have rest: "insert_teammates pid tms w1 = (r, w')"
        by (simp add: bindE_def)
      from Pair Inr have w1:
        "snapshot w1 = snapshot w" "files w1 = files w" "project_seq w1 = project_seq w"
        "responses (trace w1) = responses (trace w)"
        "filter is_call (trace w1) = filter is_call (trace w) @
           [EvQuery ''INSERT INTO project_students (project_id, student_name, student_id) VALUES (?, ?, ?)'']"
        "db w1 = (db w)\<lparr>project_students := project_students (db w) @
                   [\<lparr>ps_project_id = pid, ps_student_name = tm_name tm,
                     ps_student_id = tm_studentId tm\<rparr>]\<rparr>"
        "faults w1 = tl (faults w)"
        by (auto simp: insertProjectStudent_alt responses_append split: list.splits option.splits)
      from Cons.IH [OF rest] obtain k where k: "k \<le> length tms"
        "filter is_call (trace w') = filter is_call (trace w1) @
          replicate k (EvQuery ''INSERT INTO project_students (project_id, student_name, student_id) VALUES (?, ?, ?)'')"
        "faults w' = drop k (faults w1)"
        "r = Inr () \<longrightarrow> k = length tms"
        by blast
      have "Suc k \<le> length (tm # tms) \<and>
            filter is_call (trace w') = filter is_call (trace w) @
              replicate (Suc k) (EvQuery ''INSERT INTO project_students (project_id, student_name, student_id) VALUES (?, ?, ?)'')
            \<and> faults w' = drop (Suc k) (faults w)
            \<and> (r = Inr () \<longrightarrow> Suc k = length (tm # tms))"
        using k w1 by (simp add: drop_Suc)
      then have ex: "\<exists>k \<le> length (tm # tms).
            filter is_call (trace w') = filter is_call (trace w) @
              replicate k (EvQuery ''INSERT INTO project_students (project_id, student_name, student_id) VALUES (?, ?, ?)'')
            \<and> faults w' = drop k (faults w)
            \<and> (r = Inr () \<longrightarrow> k = length (tm # tms))"
        by blast
      from Cons.IH [OF rest] w1 ex show ?thesis
        by simp
    qed
  qed
qed


lemma insertProject_alt:
  "insertProject ttl descr supervisor gyear gterm dept path link w =
     (case faults w of
        Some e # fs \<Rightarrow>
          (Inl e, w\<lparr>trace := trace w @ [EvQuery (''INSERT INTO projects (title, description, supervisor_name, graduation_year, ''
                 @ ''graduation_term, department_name, project_files_path, github_link, ''
                 @ ''approval_status, total_votes) VALUES (?, ?, ?, ?, ?, ?, ?, ?, ''
                 @ [quote] @ ''pending'' @ [quote] @ '', 0)'')],
                     faults := fs\<rparr>)
      | _ \<Rightarrow>
          (Inr (project_seq w),
           w\<lparr>trace := trace w @ [EvQuery (''INSERT INTO projects (title, description, supervisor_name, graduation_year, ''
                 @ ''graduation_term, department_name, project_files_path, github_link, ''
                 @ ''approval_status, total_votes) VALUES (?, ?, ?, ?, ?, ?, ?, ?, ''
                 @ [quote] @ ''pending'' @ [quote] @ '', 0)'')],
             faults := tl (faults w),
             db := (db w)\<lparr>projects := projects (db w) @
                      [\<lparr>project_id = project_seq w, title = ttl, description = descr,
                        supervisor_name = supervisor, graduation_year = gyear,
                        graduation_term = gterm, department_name = dept,
                        project_files_path = path, github_link = link,
                        approval_status = ''pending'', total_votes = 0\<rparr>]\<rparr>,
             project_seq := project_seq w + 1\<rparr>))"
  by (simp add: insertProject_def gateway_alt Let_def split: list.splits option.splits)

lemma checkExistingStudents_alt:
  "checkExistingStudents ids w =
     (case faults w of
        Some e # fs \<Rightarrow>
          (Inl e, w\<lparr>trace := trace w @ [EvQuery ''SELECT student_id FROM project_students WHERE student_id IN (?)''],
                     faults := fs\<rparr>)
      | _ \<Rightarrow>
          (Inr (map ps_student_id (filter (\<lambda>r. ps_student_id r \<in> set ids) (project_students (db w)))),
           w\<lparr>trace := trace w @ [EvQuery ''SELECT student_id FROM project_students WHERE student_id IN (?)''],
             faults := tl (faults w)\<rparr>))"
  by (cases w) (simp add: checkExistingStudents_def query_def gateway_alt statement_def
      split: list.splits option.splits)

lemma fs_unlink_throws: "fs_unlink p w = (Inl (ReferenceError ''fs is not defined''), w)"
  by (simp add: fs_unlink_def resolve_def module_scope_def runtime_globals_def bindE_def throwE_def)

lemma register_project_catch_effect:
  assumes "register_project_catch file err w0 = (r, w')"
  shows "durable w' = durable w0 \<and> files w' = files w0 \<and>
         filter is_call (trace w') = filter is_call (trace w0) @ [EvRollback] \<and>
         (case faults w0 of
            Some e # fs \<Rightarrow>
              r = Inl e \<and> snapshot w' = snapshot w0 \<and> db w' = db w0 \<and>
              responses (trace w') = responses (trace w0)
          | _ \<Rightarrow>
              snapshot w' = None \<and> db w' = durable w0 \<and>
              (if file = None \<or> file = Some [] then
                 r = Inr () \<and>
                 responses (trace w') = responses (trace w0) @
                   [(500, JObj [(''error'', JStr ''Server error during project creation. Transaction has been rolled back.'')])]
               else
                 r = Inl (ReferenceError ''fs is not defined'') \<and>
                 responses (trace w') = responses (trace w0)))"
  using assms
  by (auto simp: register_project_catch_def bindE_def console_error_def emit_def
      rollbackTransaction_alt fs_unlink_throws returnE_def respond_def responses_append
      durable_def split: list.splits option.splits if_splits)


lemma register_project_try_effect:
  assumes tm: "rq_teammateData req = Some tms"
    and chk: "checkExistingStudents (map tm_studentId tms) w = (Inr [], w1)"
    and run: "register_project_try req file w = (r, w')"
  shows "files w' = files w \<and>
         ((r = Inr () \<and> snapshot w' = None \<and>
           db w' = (db w)
             \<lparr>projects := projects (db w) @
                [\<lparr>project_id = project_seq w, title = rq_title req,
                  description = rq_description req,
                  supervisor_name = rq_supervisor_name req,
                  graduation_year = rq_graduation_year req,
                  graduation_term = rq_graduation_term req,
                  department_name = rq_department_name req,
                  project_files_path = file, github_link = rq_github_link req,
                  approval_status = ''pending'', total_votes = 0\<rparr>],
              project_students := project_students (db w) @
                map (\<lambda>t. \<lparr>ps_project_id = project_seq w, ps_student_name = tm_name t,
                           ps_student_id = tm_studentId t\<rparr>) tms\<rparr> \<and>
           responses (trace w') = responses (trace w) @
             [(201, JObj [(''message'', JStr ''Project and student associations created successfully'')])] \<and>
           filter is_call (trace w') = filter is_call (trace w) @
             [EvQuery ''SELECT student_id FROM project_students WHERE student_id IN (?)'',
              EvBegin,
              EvQuery (''INSERT INTO projects (title, description, supervisor_name, graduation_year, ''
                 @ ''graduation_term, department_name, project_files_path, github_link, ''
                 @ ''approval_status, total_votes) VALUES (?, ?, ?, ?, ?, ?, ?, ?, ''
                 @ [quote] @ ''pending'' @ [quote] @ '', 0)'')] @
             replicate (length tms)
               (EvQuery ''INSERT INTO project_students (project_id, student_name, student_id) VALUES (?, ?, ?)'') @
             [EvCommit])
        \<or> ((\<exists>e. r = Inl e) \<and>
            responses (trace w') = responses (trace w) \<and>
            (snapshot w' = Some (db w) \<or> snapshot w' = snapshot w \<and> db w' = db w) \<and>
            (\<exists>cs. filter is_call (trace w') = filter is_call (trace w) @
                    EvQuery ''SELECT student_id FROM project_students WHERE student_id IN (?)''
                    # EvBegin # cs
                  \<and> faults w' = drop (Suc (Suc (length cs))) (faults w))))"
proof -
  let ?insp = "EvQuery (''INSERT INTO projects (title, description, supervisor_name, graduation_year, ''
                 @ ''graduation_term, department_name, project_files_path, github_link, ''
                 @ ''approval_status, total_votes) VALUES (?, ?, ?, ?, ?, ?, ?, ?, ''
                 @ [quote] @ ''pending'' @ [quote] @ '', 0)'')"
  let ?ins = "EvQuery ''INSERT INTO project_students (project_id, student_name, student_id) VALUES (?, ?, ?)''"
  from chk have w1: "db w1 = db w" "snapshot w1 = snapshot w" "files w1 = files w"
    "project_seq w1 = project_seq w" "responses (trace w1) = responses (trace w)"
    "filter is_call (trace w1) = filter is_call (trace w) @
       [EvQuery ''SELECT student_id FROM project_students WHERE student_id IN (?)'']"
    "faults w1 = tl (faults w)"
    by (auto simp: checkExistingStudents_alt responses_append split: list.splits option.splits)
  obtain r2 w2 where s2: "startTransaction w1 = (r2, w2)"
    by force
  have loop: "(if tms = [] then returnE () else insert_teammates pid tms)
              = insert_teammates pid tms" for pid
    by (cases tms) simp_all
  from run have run': "bindE startTransaction (\<lambda>_.
       bindE (insertProject (rq_title req) (rq_description req) (rq_supervisor_name req)
                (rq_graduation_year req) (rq_graduation_term req) (rq_department_name req)
                file (rq_github_link req)) (\<lambda>projectId.
       bindE (insert_teammates projectId tms) (\<lambda>_.
       bindE commitTransaction (\<lambda>_.
       respond 201
         (JObj [(''message'', JStr ''Project and student associations created successfully'')]))))) w1
       = (r, w')"
    by (simp add: register_project_try_def tm teammate_ids_def returnE_def chk loop
        bindE_def [of "returnE _"] bindE_def [of "checkExistingStudents _"])
  have failI: ?thesis
    if "r = Inl e" "files w' = files w" "responses (trace w') = responses (trace w)"
      "snapshot w' = Some (db w) \<or> snapshot w' = snapshot w \<and> db w' = db w"
      "filter is_call (trace w') = filter is_call (trace w) @
         EvQuery ''SELECT student_id FROM project_students WHERE student_id IN (?)''
         # EvBegin # cs"
      "faults w' = drop (Suc (Suc (length cs))) (faults w)" for e cs
  proof -
    from that(5,6) have "\<exists>cs. filter is_call (trace w') = filter is_call (trace w) @
                    EvQuery ''SELECT student_id FROM project_students WHERE student_id IN (?)''
                    # EvBegin # cs
                  \<and> faults w' = drop (Suc (Suc (length cs))) (faults w)"
      by (intro exI [of _ cs] conjI)
    with that(1-4) show ?thesis
      by simp
  qed
  show ?thesis
  proof (cases r2)
    case (Inl e)
    with s2 run' have "r = Inl e" "w' = w2"
      by (simp_all add: bindE_def)
    with s2 Inl w1 have "r = Inl e" "files w' = files w"
      "responses (trace w') = responses (trace w)"
      "snapshot w' = Some (db w) \<or> snapshot w' = snapshot w \<and> db w' = db w"
      "filter is_call (trace w') = filter is_call (trace w) @
         EvQuery ''SELECT student_id FROM project_students WHERE student_id IN (?)''
         # EvBegin # []"
      "faults w' = drop (Suc (Suc (length ([] :: event list)))) (faults w)"
      by (auto simp: startTransaction_alt responses_append drop_Suc
          split: list.splits option.splits)
    then show ?thesis
      by (rule failI)
  next
    case (Inr u2)
    with s2 w1 have w2: "db w2 = db w" "snapshot w2 = Some (db w)" "files w2 = files w"
      "project_seq w2 = project_seq w" "responses (trace w2) = responses (trace w)"
      "filter is_call (trace w2) = filter is_call (trace w) @
         [EvQuery ''SELECT student_id FROM project_students WHERE student_id IN (?)'', EvBegin]"
      "faults w2 = drop (Suc (Suc 0)) (faults w)"
      by (auto simp: startTransaction_alt responses_append drop_Suc
          split: list.splits option.splits)
    obtain r3 w3 where s3: "insertProject (rq_title req) (rq_description req)
        (rq_supervisor_name req) (rq_graduation_year req) (rq_graduation_term req)
        (rq_department_name req) file (rq_github_link req) w2 = (r3, w3)"
      by force
    from s3 have f3: "faults w3 = tl (faults w2)"
      by (auto simp: insertProject_alt split: list.splits option.splits)
    show ?thesis
    proof (cases r3)
      case (Inl e)
      with s2 Inr s3 run' have "r = Inl e" "w' = w3"
        by (simp_all add: bindE_def)
      moreover from s3 Inl w2 have "snapshot w3 = Some (db w)" "files w3 = files w"
        "responses (trace w3) = responses (trace w)"
        "filter is_call (trace w3) = filter is_call (trace w) @
           EvQuery ''SELECT student_id FROM project_students WHERE student_id IN (?)''
           # EvBegin # [?insp]"
        by (auto simp: insertProject_alt responses_append split: list.splits option.splits)
      moreover from f3 w2 have "faults w3 = drop (Suc (Suc (length [?insp]))) (faults w)"
        by (simp add: drop_Suc)
      ultimately have "r = Inl e" "files w' = files w"
        "responses (trace w') = responses (trace w)"
        "snapshot w' = Some (db w) \<or> snapshot w' = snapshot w \<and> db w' = db w"
        "filter is_call (trace w') = filter is_call (trace w) @
           EvQuery ''SELECT student_id FROM project_students WHERE student_id IN (?)''
           # EvBegin # [?insp]"
        "faults w' = drop (Suc (Suc (length [?insp]))) (faults w)"
        by simp_all
      then show ?thesis
        by (rule failI)
    next
      case (Inr pid)
      with s3 w2 have w3: "pid = project_seq w" "snapshot w3 = Some (db w)" "files w3 = files w"
        "responses (trace w3) = responses (trace w)"
        "filter is_call (trace w3) = filter is_call (trace w) @
           [EvQuery ''SELECT student_id FROM project_students WHERE student_id IN (?)'', EvBegin,
            EvQuery (''INSERT INTO projects (title, description, supervisor_name, graduation_year, ''
                 @ ''graduation_term, department_name, project_files_path, github_link, ''
                 @ ''approval_status, total_votes) VALUES (?, ?, ?, ?, ?, ?, ?, ?, ''
                 @ [quote] @ ''pending'' @ [quote] @ '', 0)'')]"
        "db w3 = (db w)\<lparr>projects := projects (db w) @
                [\<lparr>project_id = project_seq w, title = rq_title req,
                  description = rq_description req,
                  supervisor_name = rq_supervisor_name req,
                  graduation_year = rq_graduation_year req,
                  graduation_term = rq_graduation_term req,
                  department_name = rq_department_name req,
                  project_files_path = file, github_link = rq_github_link req,
                  approval_status = ''pending'', total_votes = 0\<rparr>]\<rparr>"
        by (auto simp: insertProject_alt responses_append split: list.splits option.splits)
      from f3 w2 have f3': "faults w3 = drop (Suc (Suc (Suc 0))) (faults w)"
        by (simp add: drop_Suc)
      obtain r4 w4 where s4: "insert_teammates pid tms w3 = (r4, w4)"
        by force
      note e4 = insert_teammates_effect [OF s4]
      from e4 obtain k where k: "k \<le> length tms"
        "filter is_call (trace w4) = filter is_call (trace w3) @
          replicate k (EvQuery ''INSERT INTO project_students (project_id, student_name, student_id) VALUES (?, ?, ?)'')"
        "faults w4 = drop k (faults w3)"
        "r4 = Inr () \<longrightarrow> k = length tms"
        by blast
      from k(3) f3' have f4: "faults w4 = drop (Suc (Suc (Suc k))) (faults w)"
        by (simp add: drop_Suc tl_drop)
      show ?thesis
      proof (cases r4)
        case (Inl e)
        with s2 \<open>r2 = Inr u2\<close> s3 \<open>r3 = Inr pid\<close> s4 run' have "r = Inl e" "w' = w4"
          by (simp_all add: bindE_def)
        with e4 k(2) w3 f4 have "r = Inl e" "files w' = files w"
          "responses (trace w') = responses (trace w)"
          "snapshot w' = Some (db w) \<or> snapshot w' = snapshot w \<and> db w' = db w"
          "filter is_call (trace w') = filter is_call (trace w) @
             EvQuery ''SELECT student_id FROM project_students WHERE student_id IN (?)''
             # EvBegin # (?insp # replicate k ?ins)"
          "faults w' = drop (Suc (Suc (length (?insp # replicate k ?ins)))) (faults w)"
          by auto
        then show ?thesis
          by (rule failI)
      next
        case (Inr u4)
        with e4 k w3 have w4: "snapshot w4 = Some (db w)" "files w4 = files w"
          "responses (trace w4) = responses (trace w)"
          "filter is_call (trace w4) = filter is_call (trace w3) @
            replicate (length tms) (EvQuery ''INSERT INTO project_students (project_id, student_name, student_id) VALUES (?, ?, ?)'')"
          "db w4 = (db w3)\<lparr>project_students := project_students (db w3) @
                   map (\<lambda>t. \<lparr>ps_project_id = project_seq w, ps_student_name = tm_name t,
                              ps_student_id = tm_studentId t\<rparr>) tms\<rparr>"
          "faults w4 = drop (Suc (Suc (Suc (length tms)))) (faults w)"
          using f4 by auto
        obtain r5 w5 where s5: "commitTransaction w4 = (r5, w5)"
          by force
        show ?thesis
        proof (cases r5)
          case (Inl e)
          with s2 \<open>r2 = Inr u2\<close> s3 \<open>r3 = Inr pid\<close> s4 \<open>r4 = Inr u4\<close> s5 run'
          have "r = Inl e" "w' = w5"
            by (simp_all add: bindE_def)
          moreover from s5 Inl w4 have "snapshot w5 = Some (db w)" "files w5 = files w"
            "responses (trace w5) = responses (trace w)"
            "filter is_call (trace w5) = filter is_call (trace w4) @ [EvCommit]"
            "faults w5 = tl (faults w4)"
            by (auto simp: commitTransaction_alt responses_append split: list.splits option.splits)
          ultimately have "r = Inl e" "files w' = files w"
            "responses (trace w') = responses (trace w)"
            "snapshot w' = Some (db w) \<or> snapshot w' = snapshot w \<and> db w' = db w"
            "filter is_call (trace w') = filter is_call (trace w) @
               EvQuery ''SELECT student_id FROM project_students WHERE student_id IN (?)''
               # EvBegin # (?insp # replicate (length tms) ?ins @ [EvCommit])"
            "faults w' = drop (Suc (Suc (length (?insp # replicate (length tms) ?ins @ [EvCommit])))) (faults w)"
            using w4 w3 by (simp_all add: drop_Suc tl_drop)
          then show ?thesis
            by (rule failI)
        next
          case (Inr u5)
          with s2 \<open>r2 = Inr u2\<close> s3 \<open>r3 = Inr pid\<close> s4 \<open>r4 = Inr u4\<close> s5 run'
          have fin: "respond 201
              (JObj [(''message'', JStr ''Project and student associations created successfully'')]) w5
              = (r, w')"
            by (simp add: bindE_def)
          from s5 Inr w4 have w5: "snapshot w5 = None" "files w5 = files w" "db w5 = db w4"
            "responses (trace w5) = responses (trace w)"
            "filter is_call (trace w5) = filter is_call (trace w4) @ [EvCommit]"
            by (auto simp: commitTransaction_alt responses_append
                split: list.splits option.splits)
          from fin w5 w4 w3 show ?thesis
            by (auto simp: respond_def emit_def responses_append)
        qed
      qed
    qed
  qed
qed


text \<open>Unfolding the handler and the sample data, to evaluate a concrete request.\<close>

lemmas handler_defs =
  register_project_def register_project_try_def register_project_catch_def Let_def
  catchE_def bindE_def returnE_def throwE_def teammate_ids_def checkExistingStudents_def
  startTransaction_def commitTransaction_def rollbackTransaction_def insertProject_def
  insertProjectStudent_def query_def gateway_def statement_def respond_def console_error_def
  emit_def fs_unlink_def resolve_def module_scope_def runtime_globals_def

lemmas sample_defs =
  sample_world_def sample_tables_def sample_student_def sample_project_req_def

section \<open>Student login\<close>

text \<open>
  C10. A login request whose \<open>student_id\<close> is not an integer or whose password is not
  8 to 12 characters long is answered 400 with the list of field errors, and that response
  is all the handler does: the world is otherwise unchanged, so no gateway call was made.
\<close>

theorem student_login_rejects_invalid:
  assumes "\<not> (isInt (lr_student_id req) \<and> isLength 8 12 (lr_password req))"
  shows "login_validators req \<noteq> [] \<and>
         student_login X req w =
           (Inr (), w\<lparr>trace := trace w @
              [EvRespond 400 (JObj [(''errors'', JArr (map verror_json (login_validators req)))])]\<rparr>)"
  using assms
  by (auto simp: student_login_def login_validators_def check_def catchE_def respond_def
      emit_def Let_def)

theorem student_login_rejects_invalid_witness:
  "\<not> isInt ''20x0'' \<and>
   sent sample_world
     (student_login sample_ext \<lparr>lr_student_id = ''20x0'', lr_password = ''secret123''\<rparr> sample_world)
     = [(400, JObj [(''errors'',
          JArr [JObj [(''value'', JStr ''20x0''),
                      (''msg'', JStr ''Please enter a valid student ID (integer)''),
                      (''path'', JStr ''student_id''), (''location'', JStr ''body'')]])])] \<and>
   calls sample_world
     (student_login sample_ext \<lparr>lr_student_id = ''20x0'', lr_password = ''secret123''\<rparr> sample_world)
     = []"
  using student_login_rejects_invalid
    [of "\<lparr>lr_student_id = ''20x0'', lr_password = ''secret123''\<rparr>" sample_ext sample_world]
  by (simp add: sent_def calls_def login_validators_def check_def verror_json_def isLength_def
      is_digit_def sample_world_def)



section \<open>Student and professor registration\<close>

text \<open>
  C9. A registration that passes validation, with an ID and an e-mail no stored student has
  and with the gateway answering its three calls, appends one student row whose password
  column is the hash of the submitted password; the hash differs from the plaintext (a
  bcrypt hash has 60 characters, an accepted password at most 12); the response is 201
  and its body has no password field.
\<close>

theorem student_register_stores_hash:
  assumes hashlen: "length (bcrypt_hash X (rr_password req)) = 60"
    and valid: "register_validators X req = []"
    and fresh: "\<forall>s \<in> set (students (db w)).
                  student_id s \<noteq> rr_student_id req \<and> student_email s \<noteq> rr_email req"
    and ok: "no_faults 3 w"
  shows "fst (student_register X req w) = Inr ()
       \<and> students (db (snd (student_register X req w))) =
           students (db w) @
             [\<lparr>student_id = rr_student_id req, student_name = rr_student_name req,
               student_email = rr_email req,
               student_password = bcrypt_hash X (rr_password req),
               student_department = rr_student_department req,
               student_project_id = None, student_token = next_token w\<rparr>]
       \<and> bcrypt_hash X (rr_password req) \<noteq> rr_password req
       \<and> sent w (student_register X req w) =
           [(201, JObj [(''student_id'', JNum (rr_student_id req)),
                        (''student_name'', JStr (rr_student_name req)),
                        (''student_email'', JStr (rr_email req)),
                        (''student_department'', JStr (rr_student_department req)),
                        (''student_project_id'', JNull),
                        (''student_token'', JStr (next_token w))])]
       \<and> (\<forall>b. (201, b) \<in> set (sent w (student_register X req w)) \<longrightarrow>
              ''student_password'' \<notin> set (keys b) \<and> ''password'' \<notin> set (keys b))"
proof -
  define w1 where "w1 = w\<lparr>trace := trace w @ [EvQuery ''select * from students where student_id = ?''],
                          faults := tl (faults w)\<rparr>"
  define w2 where "w2 = w1\<lparr>trace := trace w1 @ [EvQuery ''select * from students where student_email = ?''],
                          faults := tl (faults w1)\<rparr>"
  have ok1: "no_faults 2 w1"
    using no_faults_step [of 2 w w1] ok by (simp add: w1_def numeral_3_eq_3 numeral_2_eq_2)
  have ok2: "no_faults (Suc 0) w2"
    using no_faults_step [of 1 w1 w2] ok1 by (simp add: w2_def numeral_2_eq_2)
  have none_id: "filter (\<lambda>s. student_id s = rr_student_id req) (students (db w)) = []"
    using fresh by (auto simp: filter_empty_conv)
  have none_email: "filter (\<lambda>s. student_email s = rr_email req) (students (db w)) = []"
    using fresh by (auto simp: filter_empty_conv)
  have q1: "select_students_by_id (rr_student_id req) w = (Inr [], w1)"
    using ok none_id
    by (simp add: select_students_by_id_def query_ok [of 2] numeral_3_eq_3 statement_def w1_def)
  have q2: "select_students_by_email (rr_email req) w1 = (Inr [], w2)"
    using ok1 none_email
    by (simp add: select_students_by_email_def query_ok [of 1] numeral_2_eq_2 statement_def
        w2_def w1_def)
  have len: "length (rr_password req) \<le> 12"
    using valid by (auto simp: register_validators_def check_def isLength_def split: if_splits)
  have neq: "bcrypt_hash X (rr_password req) \<noteq> rr_password req"
    using hashlen len by auto
  have w2: "entropy w2 = entropy w" "students (db w2) = students (db w)"
    "trace w2 = trace w @ [EvQuery ''select * from students where student_id = ?'',
                           EvQuery ''select * from students where student_email = ?'']"
    by (simp_all add: w2_def w1_def)
  have ins: "insert_student s w3 =
              (Inr (), w3\<lparr>trace := trace w3 @ [EvQuery ''insert into students set ? ''],
                          faults := tl (faults w3),
                          db := (db w3)\<lparr>students := students (db w3) @ [s]\<rparr>\<rparr>)"
    if "no_faults (Suc 0) w3" "students (db w3) = students (db w)"
       "student_id s = rr_student_id req" "student_email s = rr_email req" for s w3
    using that fresh
    by (cases w3) (auto simp: insert_student_def query_ok [of 0] statement_def)
  have ok3: "no_faults (Suc 0) (w2\<lparr>entropy := e\<rparr>)" for e
    using ok2 by (simp add: no_faults_def)
  show ?thesis
    using neq
    by (simp add: student_register_def valid catchE_def bindE_def unawaited_def object_length_def
        js_greater_def q1 q2 randomToken_def
        ins ok2 ok3 w2 respond_def emit_def sent_def responses_append next_token_def
        student_row_def split: list.splits)
qed


theorem student_register_stores_hash_witness:
  "length (bcrypt_hash sample_ext ''secret123'') = 60 \<and>
   register_validators sample_ext sample_register_req = [] \<and>
   map student_id (students (db sample_world)) = [2020] \<and>
   map student_email (students (db sample_world)) = [''mona@fci.helwan.edu.eg''] \<and>
   no_faults 3 sample_world \<and>
   map student_password (students (db (snd (student_register sample_ext sample_register_req sample_world))))
     = [''$2b$10$'' @ replicate 53 (CHR ''h''), ''$2b$10$'' @ replicate 53 (CHR ''h'')] \<and>
   sent sample_world (student_register sample_ext sample_register_req sample_world) =
     [(201, JObj [(''student_id'', JNum 2021),
                  (''student_name'', JStr ''Ali Mahmoud''),
                  (''student_email'', JStr ''ali@fci.helwan.edu.eg''),
                  (''student_department'', JStr ''CS''),
                  (''student_project_id'', JNull),
                  (''student_token'', JStr ''0123456789abcdef0123456789abcdef'')])]"
proof -
  have h: "length (bcrypt_hash sample_ext (rr_password sample_register_req)) = 60"
    by (simp add: sample_ext_def)
  have v: "register_validators sample_ext sample_register_req = []"
    by (simp add: register_validators_def email_validators_def check_def sample_ext_def
        sample_register_req_def endsWith_def isString_def isLength_def)
  have m: "students (db sample_world) = [sample_student]"
    "next_token sample_world = ''0123456789abcdef0123456789abcdef''"
    by (simp_all add: sample_world_def sample_tables_def next_token_def)
  have f: "\<forall>s \<in> set (students (db sample_world)).
             student_id s \<noteq> rr_student_id sample_register_req \<and>
             student_email s \<noteq> rr_email sample_register_req"
    by (simp add: m sample_student_def sample_register_req_def)
  have n: "no_faults 3 sample_world"
    by (simp add: no_faults_def sample_world_def)
  show ?thesis
    using student_register_stores_hash [OF h v f n] v n
    by (simp add: m sample_student_def sample_register_req_def sample_ext_def)
qed

text \<open>
  What the handlers do with the outcome of their statements. Each statement is handed to
  the connection and the Query object is awaited in place of its result: the lookups never
  find anything, and an insert the database refuses raises nothing in the handler. A
  request that passes validation is therefore always answered 201, and neither catch block
  is ever entered: the student handler's would answer 500 for every error, the professor
  handler's looks for \<open>Duplicate entry\<close> in the message and would answer 409.
\<close>

lemma query_responses:
  "responses (trace (snd (query sql f w))) = responses (trace w)"
  by (cases "faults w"; cases "f (db w)"; cases "hd (faults w)")
     (auto simp: query_def gateway_alt statement_def responses_append
       split: list.splits option.splits sum.splits)

lemma student_statement_responses:
  "responses (trace (snd (select_students_by_id i w))) = responses (trace w)"
  "responses (trace (snd (select_students_by_email e w))) = responses (trace w)"
  "responses (trace (snd (insert_student s w))) = responses (trace w)"
  by (simp_all add: select_students_by_id_def select_students_by_email_def insert_student_def
      query_responses)

lemma insert_professor_responses:
  "responses (trace (snd (insert_professor p w))) = responses (trace w)"
  by (simp add: insert_professor_def query_responses)

lemma student_register_valid_201:
  assumes "register_validators X req = []"
  shows "fst (student_register X req w) = Inr () \<and>
         (\<exists>b. sent w (student_register X req w) = [(201, b)])"
  using assms
  by (simp add: student_register_def catchE_def bindE_def unawaited_def object_length_def
      js_greater_def randomToken_def Let_def respond_def emit_def sent_def responses_append
      student_statement_responses split: list.splits)

lemma professor_register_valid_201:
  assumes "professor_validators X req = []"
  shows "fst (professor_register X req w) = Inr () \<and>
         (\<exists>b. sent w (professor_register X req w) = [(201, b)])"
  using assms
  by (simp add: professor_register_def catchE_def bindE_def unawaited_def
      randomToken_def Let_def respond_def emit_def sent_def responses_append
      insert_professor_responses split: list.splits)

lemma student_register_never_409:
  "409 \<notin> fst ` set (sent w (student_register X req w))"
proof (cases "register_validators X req = []")
  case True
  from student_register_valid_201 [OF True, of w] show ?thesis
    by auto
next
  case False
  then show ?thesis
    by (simp add: student_register_def catchE_def Let_def respond_def emit_def sent_def
        responses_append)
qed

lemma professor_register_never_409:
  "409 \<notin> fst ` set (sent w (professor_register X req w))"
proof (cases "professor_validators X req = []")
  case True
  from professor_register_valid_201 [OF True, of w] show ?thesis
    by auto
next
  case False
  then show ?thesis
    by (simp add: professor_register_def catchE_def Let_def respond_def emit_def sent_def
        responses_append)
qed

text \<open>
  C6. A refused insert is answered 201, not 409. The student request is valid and its ID
  and e-mail are stored nowhere, and the database refuses the insert with a duplicate-key
  error; the professor request is valid and carries the ID of a stored professor, so the
  schema refuses the insert. Both handlers answer 201 with the body of a created account,
  and no row is added.
\<close>

theorem registration_duplicate_key_201:
  "register_validators sample_ext sample_register_req = [] \<and>
   sent (sample_world\<lparr>faults := [None, None, Some (duplicate_entry ''PRIMARY'')]\<rparr>)
     (student_register sample_ext sample_register_req
        (sample_world\<lparr>faults := [None, None, Some (duplicate_entry ''PRIMARY'')]\<rparr>))
     = [(201, JObj [(''student_id'', JNum 2021),
                    (''student_name'', JStr ''Ali Mahmoud''),
                    (''student_email'', JStr ''ali@fci.helwan.edu.eg''),
                    (''student_department'', JStr ''CS''),
                    (''student_project_id'', JNull),
                    (''student_token'', JStr ''0123456789abcdef0123456789abcdef'')])] \<and>
   students (db (snd (student_register sample_ext sample_register_req
        (sample_world\<lparr>faults := [None, None, Some (duplicate_entry ''PRIMARY'')]\<rparr>))))
     = [sample_student] \<and>
   professor_validators sample_ext sample_professor_req = [] \<and>
   fst (insert_professor
          \<lparr>professor_id = 501, professor_name = ''Dr. Salma'',
           professor_email = ''salma@fci.helwan.edu.eg'',
           professor_password = bcrypt_hash sample_ext ''secret123'',
           professor_department = ''CS'',
           professor_token = ''0123456789abcdef0123456789abcdef''\<rparr> sample_world)
     = Inl (duplicate_entry ''PRIMARY'') \<and>
   sent sample_world (professor_register sample_ext sample_professor_req sample_world)
     = [(201, JObj [(''professor_id'', JStr ''501''),
                    (''professor_name'', JStr ''Dr. Salma''),
                    (''professor_email'', JStr ''salma@fci.helwan.edu.eg''),
                    (''professor_department'', JStr ''CS''),
                    (''professor_token'', JStr ''0123456789abcdef0123456789abcdef'')])] \<and>
   professors (db (snd (professor_register sample_ext sample_professor_req sample_world)))
     = [sample_professor]"
proof -
  have v: "register_validators sample_ext sample_register_req = []"
    "professor_validators sample_ext sample_professor_req = []"
    by (simp_all add: register_validators_def professor_validators_def email_validators_def
        check_def sample_ext_def sample_register_req_def sample_professor_req_def endsWith_def
        isString_def isLength_def is_digit_def)
  note v' = v [unfolded sample_register_req_def sample_professor_req_def]
  have s: "sent (sample_world\<lparr>faults := [None, None, Some (duplicate_entry ''PRIMARY'')]\<rparr>)
     (student_register sample_ext sample_register_req
        (sample_world\<lparr>faults := [None, None, Some (duplicate_entry ''PRIMARY'')]\<rparr>))
     = [(201, JObj [(''student_id'', JNum 2021),
                    (''student_name'', JStr ''Ali Mahmoud''),
                    (''student_email'', JStr ''ali@fci.helwan.edu.eg''),
                    (''student_department'', JStr ''CS''),
                    (''student_project_id'', JNull),
                    (''student_token'', JStr ''0123456789abcdef0123456789abcdef'')])] \<and>
   students (db (snd (student_register sample_ext sample_register_req
        (sample_world\<lparr>faults := [None, None, Some (duplicate_entry ''PRIMARY'')]\<rparr>))))
     = [sample_student]"
    by (simp add: v' student_register_def catchE_def bindE_def
        unawaited_def object_length_def js_greater_def student_row_def
        select_students_by_id_def select_students_by_email_def insert_student_def
        query_def gateway_def statement_def sample_register_req_def
        sample_world_def sample_tables_def randomToken_def
        respond_def emit_def sent_def Let_def)
  have i: "fst (insert_professor
          \<lparr>professor_id = 501, professor_name = ''Dr. Salma'',
           professor_email = ''salma@fci.helwan.edu.eg'',
           professor_password = bcrypt_hash sample_ext ''secret123'',
           professor_department = ''CS'',
           professor_token = ''0123456789abcdef0123456789abcdef''\<rparr> sample_world)
     = Inl (duplicate_entry ''PRIMARY'')"
    by (simp add: insert_professor_def query_def gateway_def statement_def
        sample_world_def sample_tables_def sample_professor_def Let_def)
  have p: "sent sample_world (professor_register sample_ext sample_professor_req sample_world)
     = [(201, JObj [(''professor_id'', JStr ''501''),
                    (''professor_name'', JStr ''Dr. Salma''),
                    (''professor_email'', JStr ''salma@fci.helwan.edu.eg''),
                    (''professor_department'', JStr ''CS''),
                    (''professor_token'', JStr ''0123456789abcdef0123456789abcdef'')])] \<and>
   professors (db (snd (professor_register sample_ext sample_professor_req sample_world)))
     = [sample_professor]"
    by (simp add: v' professor_register_def catchE_def bindE_def unawaited_def
        insert_professor_def query_def gateway_def statement_def sample_professor_req_def
        is_digit_def digit_val_def sample_professor_def
        sample_world_def sample_tables_def randomToken_def
        respond_def emit_def sent_def Let_def)
  from v s i p show ?thesis
    by (intro conjI) (elim conjE, assumption)+
qed

section \<open>Delete by ID\<close>

text \<open>
  The comment, bookmark and student handlers answer by the number of affected rows; the
  project handler does not look at it.
\<close>

lemma delete_comment_outcome:
  assumes "no_faults (Suc 0) w"
  shows "sent w (delete_comment i w) =
           (if \<exists>r \<in> set (comments (db w)). comment_id r = i
            then [(200, JObj [(''message'', JStr ''Comment deleted successfully'')])]
            else [(404, JObj [(''error'', JStr ''Comment not found'')])])
       \<and> comments (db (snd (delete_comment i w))) = filter (\<lambda>r. comment_id r \<noteq> i) (comments (db w))"
  by (auto simp: delete_comment_def withCallback_def query_ok [OF assms] statement_def
      delete_where_def respond_def emit_def sent_def responses_append filter_empty_conv)

lemma admin_delete_comment_outcome:
  assumes "no_faults (Suc 0) w"
  shows "sent w (admin_delete_comment i w) =
           (if \<exists>r \<in> set (comments (db w)). comment_id r = i
            then [(200, JObj [(''message'', JStr ''Comment deleted successfully'')])]
            else [(404, JObj [(''error'', JStr ''Comment not found'')])])
       \<and> comments (db (snd (admin_delete_comment i w))) = filter (\<lambda>r. comment_id r \<noteq> i) (comments (db w))"
  by (auto simp: admin_delete_comment_def withCallback_def query_ok [OF assms] statement_def
      delete_where_def respond_def emit_def sent_def responses_append filter_empty_conv)

lemma delete_bookmark_outcome:
  assumes "no_faults (Suc 0) w"
  shows "sent w (delete_bookmark i w) =
           (if \<exists>r \<in> set (bookmarks (db w)). bookmark_id r = i
            then [(200, JObj [(''message'', JStr ''Bookmark deleted successfully'')])]
            else [(404, JObj [(''error'', JStr ''Bookmark not found'')])])
       \<and> bookmarks (db (snd (delete_bookmark i w))) = filter (\<lambda>r. bookmark_id r \<noteq> i) (bookmarks (db w))"
  by (auto simp: delete_bookmark_def withCallback_def query_ok [OF assms] statement_def
      delete_where_def respond_def emit_def sent_def responses_append filter_empty_conv)

lemma delete_student_outcome:
  assumes "no_faults (Suc 0) w"
  shows "sent w (delete_student i w) =
           (if \<exists>r \<in> set (students (db w)). student_id r = i
            then [(200, JObj [(''message'', JStr ''Student account deleted successfully'')])]
            else [(404, JObj [(''error'', JStr ''Student account not found'')])])
       \<and> students (db (snd (delete_student i w))) = filter (\<lambda>r. student_id r \<noteq> i) (students (db w))"
  by (auto simp: delete_student_def withCallback_def query_ok [OF assms] statement_def
      delete_where_def respond_def emit_def sent_def responses_append filter_empty_conv)

lemma delete_project_outcome:
  assumes "no_faults (Suc 0) w"
  shows "sent w (delete_project i w) = [(200, JObj [(''message'', JStr ''Project deleted successfully'')])]
       \<and> projects (db (snd (delete_project i w))) = filter (\<lambda>r. project_id r \<noteq> i) (projects (db w))"
  by (auto simp: delete_project_def withCallback_def query_ok [OF assms] statement_def
      delete_where_def respond_def emit_def sent_def responses_append)

text \<open>
  C7. \<open>DELETE /projects/:id\<close> answers 200 when no project has the ID, where
  \<open>DELETE /delete-comment/:comment_id\<close> answers 404 for an ID no comment has.
\<close>

theorem delete_project_missing_200:
  "filter (\<lambda>r. project_id r = 99) (projects (db sample_world)) = [] \<and>
   sent sample_world (delete_project 99 sample_world) =
     [(200, JObj [(''message'', JStr ''Project deleted successfully'')])] \<and>
   filter (\<lambda>r. comment_id r = 99) (comments (db sample_world)) = [] \<and>
   sent sample_world (delete_comment 99 sample_world) =
     [(404, JObj [(''error'', JStr ''Comment not found'')])]"
  by (simp add: delete_project_def delete_comment_def withCallback_def query_def gateway_def
      statement_def delete_where_def sample_world_def sample_tables_def respond_def emit_def
      sent_def Let_def)

section \<open>Project registration\<close>





text \<open>
  Two requests on the one connection. While the first waits for the answer to its
  project insert, a request without teammate data is handled: its catch block rolls back,
  and what it rolls back is the first request's transaction. The first request's teammate
  inserts then run with no transaction open, its commit has nothing to commit, and it
  answers 201: two team-membership rows refer to project 8, and no project row exists.
\<close>

lemma register_project_overlapped_201_without_project:
  "sent sample_world
     (register_project_overlapped (sample_project_req\<lparr>rq_file := None\<rparr>)
        (register_project (sample_project_req_b\<lparr>rq_teammateData := None\<rparr>)) sample_world)
     = [(500, JObj [(''error'', JStr ''Server error during project creation. Transaction has been rolled back.'')]),
        (201, JObj [(''message'', JStr ''Project and student associations created successfully'')])] \<and>
   snapshot (snd (register_project_overlapped (sample_project_req\<lparr>rq_file := None\<rparr>)
        (register_project (sample_project_req_b\<lparr>rq_teammateData := None\<rparr>)) sample_world)) = None \<and>
   projects (db (snd (register_project_overlapped (sample_project_req\<lparr>rq_file := None\<rparr>)
        (register_project (sample_project_req_b\<lparr>rq_teammateData := None\<rparr>)) sample_world))) = [] \<and>
   map (\<lambda>m. (ps_project_id m, ps_student_id m))
     (project_students (db (snd (register_project_overlapped (sample_project_req\<lparr>rq_file := None\<rparr>)
        (register_project (sample_project_req_b\<lparr>rq_teammateData := None\<rparr>)) sample_world))))
     = [(7, 3030), (8, 2020), (8, 2021)]"
  by (simp add: handler_defs sample_defs sample_project_req_b_def sent_def
      register_project_overlapped_def settle_def)

text \<open>With nothing else happening meanwhile, the overlapped handling is the handler itself.\<close>

lemma register_project_overlapped_alone:
  "register_project_overlapped req (returnE ()) = register_project req"
proof -
  have s: "settle (returnE ()) = returnE ()"
    by (rule ext) (simp add: settle_def returnE_def)
  have b: "\<And>f. bindE (returnE ()) f = f ()"
    by (rule ext) (simp add: bindE_def returnE_def)
  show ?thesis
    by (simp add: register_project_overlapped_def register_project_def register_project_try_def
        s b cong: if_cong)
qed

text \<open>
  C3. When some teammate's student ID already has a team-membership row and the lookup
  is answered, the handler's whole effect is that lookup followed by the 400 response:
  no transaction is begun, no row is inserted, and the uploaded file stays where it is.
\<close>

theorem register_project_duplicate_teammate:
  assumes tm: "rq_teammateData req = Some tms"
    and dup: "\<exists>t \<in> set tms. tm_studentId t \<in> ps_student_id ` set (project_students (db w))"
    and ok: "no_faults 1 w"
  shows "register_project req w =
           (Inr (),
            w\<lparr>trace := trace w @
                 [EvQuery ''SELECT student_id FROM project_students WHERE student_id IN (?)'',
                  EvRespond 400
                    (JObj [(''error'', JStr ''One or more students are already associated with a project'')])],
              faults := tl (faults w)\<rparr>)"
proof -
  from dup obtain t row where "t \<in> set tms" "row \<in> set (project_students (db w))"
    "ps_student_id row = tm_studentId t"
    by auto
  then have "filter (\<lambda>r. ps_student_id r \<in> tm_studentId ` set tms) (project_students (db w)) \<noteq> []"
    by (auto simp: filter_empty_conv)
  then show ?thesis
    using ok
    by (cases w)
      (auto simp: register_project_def register_project_try_def Let_def catchE_def bindE_def
        tm teammate_ids_def returnE_def checkExistingStudents_alt no_faults_def respond_def
        emit_def split: list.splits option.splits)
qed

theorem register_project_duplicate_teammate_witness:
  "no_faults 1 sample_world \<and>
   sent sample_world
     (register_project
        (sample_project_req\<lparr>rq_teammateData := Some [\<lparr>tm_name = ''Omar'', tm_studentId = 3030\<rparr>,
                                                     \<lparr>tm_name = ''Ali'', tm_studentId = 2021\<rparr>]\<rparr>)
        sample_world)
     = [(400, JObj [(''error'', JStr ''One or more students are already associated with a project'')])] \<and>
   calls sample_world
     (register_project
        (sample_project_req\<lparr>rq_teammateData := Some [\<lparr>tm_name = ''Omar'', tm_studentId = 3030\<rparr>,
                                                     \<lparr>tm_name = ''Ali'', tm_studentId = 2021\<rparr>]\<rparr>)
        sample_world)
     = [EvQuery ''SELECT student_id FROM project_students WHERE student_id IN (?)''] \<and>
   db (snd (register_project
        (sample_project_req\<lparr>rq_teammateData := Some [\<lparr>tm_name = ''Omar'', tm_studentId = 3030\<rparr>,
                                                     \<lparr>tm_name = ''Ali'', tm_studentId = 2021\<rparr>]\<rparr>)
        sample_world)) = sample_tables \<and>
   files (snd (register_project
        (sample_project_req\<lparr>rq_teammateData := Some [\<lparr>tm_name = ''Omar'', tm_studentId = 3030\<rparr>,
                                                     \<lparr>tm_name = ''Ali'', tm_studentId = 2021\<rparr>]\<rparr>)
        sample_world)) = [''project_files/1700000000000.rar'']"
proof -
  define tms where "tms = [\<lparr>tm_name = ''Omar'', tm_studentId = 3030\<rparr>,
                           \<lparr>tm_name = ''Ali'', tm_studentId = 2021\<rparr>]"
  have t: "rq_teammateData (sample_project_req\<lparr>rq_teammateData := Some tms\<rparr>) = Some tms"
    by simp
  have d: "\<exists>t \<in> set tms. tm_studentId t \<in> ps_student_id ` set (project_students (db sample_world))"
    by (simp add: tms_def sample_world_def sample_tables_def)
  have n: "no_faults 1 sample_world"
    by (simp add: sample_world_def no_faults_def)
  note u = register_project_duplicate_teammate [OF t d n]
  have s: "db sample_world = sample_tables" "trace sample_world = []"
    "files sample_world = [''project_files/1700000000000.rar'']"
    by (simp_all add: sample_world_def)
  show ?thesis
    using n
    unfolding tms_def [symmetric]
    by (simp add: u sent_def calls_def s)
qed

text \<open>
  C4. Whenever the handler answers 201, the one project row it added has approval status
  \<open>pending\<close> and 0 votes, whatever the request carried, and every team-membership row
  it added refers to that row's generated ID.
\<close>

theorem register_project_pending_zero:
  assumes nt: "snapshot w = None"
    and run: "register_project req w = (r, w')"
    and created: "201 \<in> fst ` set (sent w (r, w'))"
  shows "\<exists>p tms. rq_teammateData req = Some tms \<and>
           projects (db w') = projects (db w) @ [p] \<and>
           approval_status p = ''pending'' \<and> total_votes p = 0 \<and>
           project_students (db w') = project_students (db w) @
             map (\<lambda>t. \<lparr>ps_project_id = project_id p, ps_student_name = tm_name t,
                        ps_student_id = tm_studentId t\<rparr>) tms"
proof -
  obtain r1 w1 where t: "register_project_try req (rq_file req) w = (r1, w1)"
    by force
  show ?thesis
  proof (cases "rq_teammateData req")
    case None
    with t have "r1 = Inl (TypeError (''Cannot read properties of undefined (reading ''
                                     @ [quote] @ ''map'' @ [quote] @ '')''))" "w1 = w"
      by (simp_all add: register_project_try_def teammate_ids_def bindE_def throwE_def)
    with t run have c: "register_project_catch (rq_file req)
         (TypeError (''Cannot read properties of undefined (reading ''
                                     @ [quote] @ ''map'' @ [quote] @ '')'')) w = (r, w')"
      by (simp add: register_project_def catchE_def Let_def)
    from register_project_catch_effect [OF c] created show ?thesis
      by (auto simp: sent_def split: list.splits option.splits if_splits)
  next
    case (Some tms)
    obtain r0 w0 where c0: "checkExistingStudents (map tm_studentId tms) w = (r0, w0)"
      by force
    show ?thesis
    proof (cases r0)
      case (Inl e)
      with c0 t Some have "r1 = Inl e" "w1 = w0"
        by (simp_all add: register_project_try_def teammate_ids_def bindE_def returnE_def)
      with t run have c: "register_project_catch (rq_file req) e w0 = (r, w')"
        by (simp add: register_project_def catchE_def Let_def)
      from c0 Inl have "responses (trace w0) = responses (trace w)"
        by (auto simp: checkExistingStudents_alt responses_append split: list.splits option.splits)
      with register_project_catch_effect [OF c] created show ?thesis
        by (auto simp: sent_def split: list.splits option.splits if_splits)
    next
      case (Inr existing)
      show ?thesis
      proof (cases existing)
        case (Cons a rest)
        with c0 Inr t Some run have "responses (trace w') = responses (trace w) @
            [(400, JObj [(''error'', JStr ''One or more students are already associated with a project'')])]"
          by (auto simp: register_project_def catchE_def Let_def register_project_try_def
              teammate_ids_def bindE_def returnE_def respond_def emit_def responses_append
              checkExistingStudents_alt split: list.splits option.splits)
        with created show ?thesis
          by (simp add: sent_def)
      next
        case Nil
        with c0 Inr have chk: "checkExistingStudents (map tm_studentId tms) w = (Inr [], w0)"
          by simp
        note eff = register_project_try_effect [OF Some chk t]
        show ?thesis
        proof (cases r1)
          case (Inr u)
          with t run have "r = Inr ()" "w' = w1"
            by (simp_all add: register_project_def catchE_def Let_def)
          with eff Inr Some show ?thesis
            by auto
        next
          case (Inl e)
          with t run have c: "register_project_catch (rq_file req) e w1 = (r, w')"
            by (simp add: register_project_def catchE_def Let_def)
          from eff Inl have "responses (trace w1) = responses (trace w)"
            by auto
          with register_project_catch_effect [OF c] created show ?thesis
            by (auto simp: sent_def split: list.splits option.splits if_splits)
        qed
      qed
    qed
  qed
qed

theorem register_project_pending_zero_witness:
  "snapshot sample_world = None \<and>
   fst ` set (sent sample_world (register_project sample_project_req sample_world)) = {201} \<and>
   map (\<lambda>p. (project_id p, approval_status p, total_votes p))
     (projects (db (snd (register_project sample_project_req sample_world))))
     = [(8, ''pending'', 0)] \<and>
   map ps_project_id
     (project_students (db (snd (register_project sample_project_req sample_world))))
     = [7, 8, 8] \<and>
   rq_other sample_project_req = [(''approval_status'', JStr ''approved''), (''total_votes'', JNum 99)]"
proof -
  have a: "snapshot sample_world = None"
    by (simp add: sample_world_def)
  have good: "\<exists>w'. register_project sample_project_req sample_world = (Inr (), w') \<and>
      responses (trace w') =
        [(201, JObj [(''message'', JStr ''Project and student associations created successfully'')])] \<and>
      map (\<lambda>p. (project_id p, approval_status p, total_votes p)) (projects (db w')) = [(8, ''pending'', 0)] \<and>
      map ps_project_id (project_students (db w')) = [7, 8, 8]"
    by (simp add: handler_defs sample_defs)
  then obtain w1 where w1: "register_project sample_project_req sample_world = (Inr (), w1)"
    "responses (trace w1) =
        [(201, JObj [(''message'', JStr ''Project and student associations created successfully'')])]"
    "map (\<lambda>p. (project_id p, approval_status p, total_votes p)) (projects (db w1)) = [(8, ''pending'', 0)]"
    "map ps_project_id (project_students (db w1)) = [7, 8, 8]"
    by (elim exE conjE)
  have tr: "trace sample_world = []"
    by (simp add: sample_world_def)
  have c: "201 \<in> fst ` set (sent sample_world (Inr (), w1))"
    by (simp add: sent_def tr w1)
  note u = register_project_pending_zero [OF a w1(1) c]
  show ?thesis
    using u a w1
    by (simp add: sent_def tr sample_project_req_def)
qed

text \<open>
  C2. With an uploaded file, a failure after the transaction has begun does not end in a
  500 response: after the rollback the catch block evaluates \<open>fs\<close>, which the module
  never binds, so the handler ends with an uncaught ReferenceError, sends nothing and
  leaves the file on disk. Here the project insert fails.
\<close>

theorem register_project_failure_keeps_file:
  "rq_file sample_project_req = Some ''project_files/1700000000000.rar'' \<and>
   fst (register_project sample_project_req
          (sample_world\<lparr>faults := [None, None, Some (SqlError ''ER_LOCK_DEADLOCK'')]\<rparr>))
     = Inl (ReferenceError ''fs is not defined'') \<and>
   sent (sample_world\<lparr>faults := [None, None, Some (SqlError ''ER_LOCK_DEADLOCK'')]\<rparr>)
     (register_project sample_project_req
          (sample_world\<lparr>faults := [None, None, Some (SqlError ''ER_LOCK_DEADLOCK'')]\<rparr>)) = [] \<and>
   calls (sample_world\<lparr>faults := [None, None, Some (SqlError ''ER_LOCK_DEADLOCK'')]\<rparr>)
     (register_project sample_project_req
          (sample_world\<lparr>faults := [None, None, Some (SqlError ''ER_LOCK_DEADLOCK'')]\<rparr>))
     = [EvQuery ''SELECT student_id FROM project_students WHERE student_id IN (?)'', EvBegin,
        EvQuery (''INSERT INTO projects (title, description, supervisor_name, graduation_year, ''
                 @ ''graduation_term, department_name, project_files_path, github_link, ''
                 @ ''approval_status, total_votes) VALUES (?, ?, ?, ?, ?, ?, ?, ?, ''
                 @ [quote] @ ''pending'' @ [quote] @ '', 0)''),
        EvRollback] \<and>
   files (snd (register_project sample_project_req
          (sample_world\<lparr>faults := [None, None, Some (SqlError ''ER_LOCK_DEADLOCK'')]\<rparr>)))
     = [''project_files/1700000000000.rar'']"
  by (simp add: handler_defs sample_defs sent_def calls_def)

section \<open>Department names\<close>








lemma listed_values_shape:
  "v \<in> set (listed_values ty) \<Longrightarrow> v \<noteq> [] \<and> quote \<notin> set v"
  by (auto simp: listed_values_def)



















text \<open>
  A column without any value the handlers can read, here one whose only value is the empty
  string (type \<open>enum('')\<close>): \<open>match\<close> returns \<open>null\<close>, the callback throws, and
  neither handler answers.
\<close>

lemma departments_no_listed_value_no_answer:
  "fst (post_departments (Some ''AI'') (sample_world\<lparr>department_values := [[]]\<rparr>))
     = Inl (TypeError (''Cannot read properties of null (reading '' @ [quote] @ ''map'' @ [quote] @ '')'')) \<and>
   sent (sample_world\<lparr>department_values := [[]]\<rparr>)
     (post_departments (Some ''AI'') (sample_world\<lparr>department_values := [[]]\<rparr>)) = [] \<and>
   fst (delete_departments (Some ''AI'') (sample_world\<lparr>department_values := [[]]\<rparr>))
     = Inl (TypeError (''Cannot read properties of null (reading '' @ [quote] @ ''map'' @ [quote] @ '')'')) \<and>
   sent (sample_world\<lparr>department_values := [[]]\<rparr>)
     (delete_departments (Some ''AI'') (sample_world\<lparr>department_values := [[]]\<rparr>)) = [] \<and>
   sent (sample_world\<lparr>department_values := []\<rparr>)
     (delete_departments (Some ''AI'') (sample_world\<lparr>department_values := []\<rparr>)) = []"
  by (simp add: post_departments_def delete_departments_def withCallback_def
      show_columns_department_name_def gateway_def currentOptions_def
      match_quoted_def column_type_def sql_literal_def throwE_def
      bindE_def sent_def sample_world_def quote_def Let_def)

text \<open>When the database does not answer the lookup, both handlers answer 500.\<close>

lemma departments_lookup_error_500:
  assumes "faults w = Some e # fs"
  shows "sent w (post_departments n w)
           = [(500, JObj [(''error'', JStr ''Error retrieving department names'')])]"
    and "n' \<noteq> [] \<Longrightarrow> sent w (delete_departments (Some n') w)
           = [(500, JObj [(''error'', JStr ''Error retrieving department names'')])]"
  using assms
  by (simp_all add: post_departments_def delete_departments_def withCallback_def
      show_columns_department_name_def gateway_alt respond_def emit_def sent_def
      responses_append)

end
